theory Spec2Isabelle
  imports Main "HOL-Library.Word"
begin

section \<open>Strings, byte arrays and numbers\<close>

text \<open>
  A JavaScript string is a sequence of UTF-16 code units; a CryptoJS \<open>WordArray\<close> is
  read here as the sequence of its significant bytes. \<open>undefined\<close> is \<open>None\<close>.
  The numbers that the client handles are action ids, which the peer sends as integers;
  JavaScript holds them as doubles. An \<open>int\<close> stands for the double of that value.
  Comparison and \<open>%\<close> are exact on doubles; addition rounds.
\<close>

type_synonym jsstring = "16 word list"
type_synonym bytes = "8 word list"

definition js :: "string \<Rightarrow> jsstring" where
  "js s = map of_char s"

text \<open>
  JavaScript's \<open>%\<close> on integers: the remainder takes the sign of the dividend.
\<close>

definition js_rem :: "int \<Rightarrow> int \<Rightarrow> int" where
  "js_rem a b = sgn a * (\<bar>a\<bar> mod \<bar>b\<bar>)"

text \<open>
  JavaScript's \<open>v + 1\<close> on a double \<open>v\<close> that is an integer. The sum is exact while it
  stays within \<open>2^53\<close> in size. From there to \<open>2^54\<close> the doubles are the even
  integers, \<open>v + 1\<close> lies half way between \<open>v\<close> and \<open>v + 2\<close>, and the tie goes to the
  one whose mantissa \<open>v / 2\<close> or \<open>v / 2 + 1\<close> is even. Beyond, the sum rounds back to
  \<open>v\<close>.
\<close>

definition double_plus_one :: "int \<Rightarrow> int" where
  "double_plus_one v =
     (if - (2 ^ 53) \<le> v \<and> v < 2 ^ 53 then v + 1
      else if - (2 ^ 54) < v \<and> v < 2 ^ 54 then (if even (v div 2) then v else v + 2)
      else v)"

text \<open>
  JavaScript's \<open>!v\<close> for a value that is a string or \<open>undefined\<close>: the empty string
  and \<open>undefined\<close> are falsy.
\<close>

definition falsy :: "jsstring option \<Rightarrow> bool" where
  "falsy v = (case v of None \<Rightarrow> True | Some t \<Rightarrow> t = [])"

section \<open>Frames and payloads\<close>

text \<open>
  The frames of \<open>frames.ts\<close>. \<open>EncryptedFrame\<close> declares
  \<open>{type: 'ENCRYPTED', data: {iv: string, payload: string}, mac: string}\<close>; the plain
  frames (\<open>AuthFrame\<close>, \<open>HelloFrame\<close>, \<open>PingFrame\<close>, \<open>PongFrame\<close>, ...) carry a
  \<open>type\<close> only, as far as the client reads them. One record holds them all, with every
  field optional, since \<open>remootioApiDecryptEncrypedFrame\<close> tests each field for presence
  at run time.
\<close>

record data =
  data_iv :: "jsstring option"
  data_payload :: "jsstring option"

record frame =
  frame_type :: "jsstring option"
  frame_data :: "data option"
  frame_mac :: "jsstring option"

text \<open>
  The decrypted payloads of \<open>frames.ts\<close> (\<open>ReceivedEncryptedFrameContent\<close>):
  \<open>ChallengeFrame\<close> with \<open>challenge: {sessionKey: string, initialActionId: number}\<close>,
  \<open>RemootioActionResponse\<close> with \<open>response: {type, id, success, state, ...}\<close>, and the
  events. The records keep the fields the message handler reads. The handler tests
  \<open>'challenge' in p\<close> and \<open>'response' in p\<close> one after the other, and
  \<open>response.id != undefined\<close>, so a payload carries each of the two optionally and the
  id is optional; an event payload is one with neither. The handler treats a parsed
  \<open>null\<close> as it treats \<open>undefined\<close>; a parsed value that is no object is outside
  these types. \<open>RemootioAction\<close> is \<open>action: {type, id}\<close>; its optional \<open>duration\<close>
  is never set by the methods of this class.
\<close>

record challenge =
  sessionKey :: jsstring
  initialActionId :: int

record response =
  response_type :: jsstring
  response_id :: "int option"

record payload =
  payload_challenge :: "challenge option"
  payload_response :: "response option"

datatype action_type = QUERY | TRIGGER | TRIGGER_SECONDARY | OPEN | CLOSE | RESTART

record action =
  action_type :: action_type
  action_id :: int

section \<open>The library interface\<close>

text \<open>
  \<open>apicrypto.js\<close> and \<open>index.ts\<close> call crypto-js and the JavaScript runtime's JSON
  functions; neither is part of the repository. They are parameters of the model:
  \<^item> \<open>Hex_parse\<close>, \<open>Base64_parse\<close>, \<open>Base64_stringify\<close>: \<open>CryptoJS.enc.Hex.parse\<close>,
    \<open>CryptoJS.enc.Base64.parse\<close> and \<open>.stringify\<close>;
  \<^item> \<open>HmacSHA256 message key\<close>: \<open>CryptoJS.HmacSHA256\<close>;
  \<^item> \<open>AES_encrypt plaintext key iv\<close>, \<open>AES_decrypt ciphertext key iv\<close>:
    \<open>CryptoJS.AES.encrypt\<close> and \<open>.decrypt\<close> in CBC mode with PKCS#7 padding;
  \<^item> \<open>JSON_stringify_data\<close>: \<open>JSON.stringify\<close> on a frame's \<open>data\<close> object;
  \<^item> \<open>JSON_stringify_action\<close>: \<open>JSON.stringify\<close> on an action payload;
  \<^item> \<open>JSON_parse\<close>: \<open>JSON.parse\<close> on a decrypted plaintext, \<open>None\<close> when it throws;
  \<^item> \<open>JSON_parse_frame\<close>: \<open>JSON.parse\<close> on a received message, \<open>None\<close> when it
    throws, \<open>Some None\<close> when the value is falsy (\<open>null\<close>).
  The type \<open>'j\<close> is the type of parsed payloads.
\<close>

record 'j library =
  Hex_parse :: "jsstring \<Rightarrow> bytes"
  Base64_parse :: "jsstring \<Rightarrow> bytes"
  Base64_stringify :: "bytes \<Rightarrow> jsstring"
  HmacSHA256 :: "jsstring \<Rightarrow> bytes \<Rightarrow> bytes"
  AES_encrypt :: "bytes \<Rightarrow> bytes \<Rightarrow> bytes \<Rightarrow> bytes"
  AES_decrypt :: "bytes \<Rightarrow> bytes \<Rightarrow> bytes \<Rightarrow> bytes"
  JSON_stringify_data :: "data \<Rightarrow> jsstring"
  JSON_stringify_action :: "action \<Rightarrow> jsstring"
  JSON_parse :: "jsstring \<Rightarrow> 'j option"
  JSON_parse_frame :: "jsstring \<Rightarrow> frame option option"

text \<open>
  \<open>CryptoJS.enc.Latin1\<close> is written out, because the round trip of a payload depends on
  it: \<open>parse\<close> keeps the low byte of every code unit (\<open>charCodeAt(i) & 0xff\<close>), and
  \<open>stringify\<close> turns every byte into the character with that code.
\<close>

definition Latin1_parse :: "jsstring \<Rightarrow> bytes" where
  "Latin1_parse latin1Str = map ucast latin1Str"

definition Latin1_stringify :: "bytes \<Rightarrow> jsstring" where
  "Latin1_stringify wordArray = map ucast wordArray"

section \<open>apicrypto.js\<close>

text \<open>
  \<open>remootioApiDecryptEncrypedFrame\<close>, lines 22 to 81. The guard of line 23 is
  \<open>decryptGuardFails\<close>; its disjuncts are tested from left to right, so a field of
  \<open>frame.data\<close> is read only once \<open>frame.data\<close> is known to be there. The steps after
  the guard are \<open>decryptSteps\<close>; every library call of the function is in them.
\<close>

definition decryptGuardFails :: "frame option \<Rightarrow> bool" where
  "decryptGuardFails frame =
     (case frame of
        None \<Rightarrow> True
      | Some f \<Rightarrow>
          if frame_type f \<noteq> Some (js ''ENCRYPTED'') then True
          else (case frame_data f of
                  None \<Rightarrow> True
                | Some d \<Rightarrow>
                    falsy (frame_mac f) \<or> falsy (data_payload d) \<or> falsy (data_iv d)))"

definition decryptSteps ::
  "'j library \<Rightarrow> data \<Rightarrow> jsstring \<Rightarrow> jsstring \<Rightarrow> jsstring \<Rightarrow> jsstring
     \<Rightarrow> jsstring \<Rightarrow> jsstring option \<Rightarrow> 'j option" where
  "decryptSteps lib frameData frameMac framePayload frameIv ApiSecretKey ApiAuthKey ApiSessionKey =
     (let CurrentlyUsedSecretKeyWordArray =
            (case ApiSessionKey of
               None \<Rightarrow> Hex_parse lib ApiSecretKey
             | Some k \<Rightarrow> Base64_parse lib k);
          ApiAuthKeyWordArray = Hex_parse lib ApiAuthKey;
          mac = HmacSHA256 lib (JSON_stringify_data lib frameData) ApiAuthKeyWordArray;
          base64mac = Base64_stringify lib mac;
          macMatches = (if base64mac \<noteq> frameMac then False else True);
          payloadWordArray = Base64_parse lib framePayload;
          ivWordArray = Base64_parse lib frameIv;
          decryptedPayloadWordArray =
            AES_decrypt lib payloadWordArray CurrentlyUsedSecretKeyWordArray ivWordArray;
          decryptedPayload = Latin1_stringify decryptedPayloadWordArray;
          decryptedPayloadJSON = JSON_parse lib decryptedPayload
      in if macMatches then decryptedPayloadJSON else None)"

definition remootioApiDecryptEncrypedFrame ::
  "'j library \<Rightarrow> frame option \<Rightarrow> jsstring \<Rightarrow> jsstring \<Rightarrow> jsstring option \<Rightarrow> 'j option" where
  "remootioApiDecryptEncrypedFrame lib frame ApiSecretKey ApiAuthKey ApiSessionKey =
     (if decryptGuardFails frame then None
      else
        (case frame of
           None \<Rightarrow> None
         | Some f \<Rightarrow>
             (case (frame_data f, frame_mac f) of
                (Some d, Some m) \<Rightarrow>
                  (case (data_payload d, data_iv d) of
                     (Some p, Some i) \<Rightarrow>
                       decryptSteps lib d m p i ApiSecretKey ApiAuthKey ApiSessionKey
                   | _ \<Rightarrow> None)
              | _ \<Rightarrow> None)))"

text \<open>
  The lines that \<open>remootioApiDecryptEncrypedFrame\<close> writes with \<open>console.warn\<close>, in
  order: line 51 on a MAC mismatch, line 72 when \<open>JSON.parse\<close> throws (the text is
  parsed whether or not the MAC matched). \<open>console.warn\<close> joins its two arguments of
  line 72 with a space.
\<close>

definition decryptStepsWarnings ::
  "'j library \<Rightarrow> data \<Rightarrow> jsstring \<Rightarrow> jsstring \<Rightarrow> jsstring \<Rightarrow> jsstring
     \<Rightarrow> jsstring \<Rightarrow> jsstring option \<Rightarrow> jsstring list" where
  "decryptStepsWarnings lib frameData frameMac framePayload frameIv ApiSecretKey ApiAuthKey
       ApiSessionKey =
     (let CurrentlyUsedSecretKeyWordArray =
            (case ApiSessionKey of
               None \<Rightarrow> Hex_parse lib ApiSecretKey
             | Some k \<Rightarrow> Base64_parse lib k);
          ApiAuthKeyWordArray = Hex_parse lib ApiAuthKey;
          mac = HmacSHA256 lib (JSON_stringify_data lib frameData) ApiAuthKeyWordArray;
          base64mac = Base64_stringify lib mac;
          payloadWordArray = Base64_parse lib framePayload;
          ivWordArray = Base64_parse lib frameIv;
          decryptedPayloadWordArray =
            AES_decrypt lib payloadWordArray CurrentlyUsedSecretKeyWordArray ivWordArray;
          decryptedPayload = Latin1_stringify decryptedPayloadWordArray
      in (if base64mac \<noteq> frameMac
          then [js ''Decryption error: calculated MAC '' @ base64mac @
                js '' does not match the MAC from the API '' @ frameMac]
          else []) @
         (case JSON_parse lib decryptedPayload of
            None \<Rightarrow>
              [js ''The decrypted frame.data is not a valid JSON: '' @ js '' '' @
               decryptedPayload]
          | Some decryptedPayloadJSON \<Rightarrow> []))"

definition decryptWarnings ::
  "'j library \<Rightarrow> frame option \<Rightarrow> jsstring \<Rightarrow> jsstring \<Rightarrow> jsstring option
     \<Rightarrow> jsstring list" where
  "decryptWarnings lib frame ApiSecretKey ApiAuthKey ApiSessionKey =
     (if decryptGuardFails frame then []
      else
        (case frame of
           None \<Rightarrow> []
         | Some f \<Rightarrow>
             (case (frame_data f, frame_mac f) of
                (Some d, Some m) \<Rightarrow>
                  (case (data_payload d, data_iv d) of
                     (Some p, Some i) \<Rightarrow>
                       decryptStepsWarnings lib d m p i ApiSecretKey ApiAuthKey ApiSessionKey
                   | _ \<Rightarrow> [])
              | _ \<Rightarrow> [])))"

text \<open>
  \<open>remootioApiConstructEncrypedFrame\<close>, lines 94 to 145. \<open>random16\<close> is the value that
  \<open>CryptoJS.lib.WordArray.random(16)\<close> returns in this call.
\<close>

definition remootioApiConstructEncrypedFrame ::
  "'j library \<Rightarrow> bytes \<Rightarrow> jsstring \<Rightarrow> jsstring \<Rightarrow> jsstring \<Rightarrow> jsstring option
     \<Rightarrow> frame option" where
  "remootioApiConstructEncrypedFrame lib random16 unencryptedPayload ApiSecretKey ApiAuthKey
       ApiSessionKey =
     (case ApiSessionKey of
        None \<Rightarrow> None
      | Some k \<Rightarrow>
          (let CurrentlyUsedSecretKeyWordArray = Base64_parse lib k;
               ApiAuthKeyWordArray = Hex_parse lib ApiAuthKey;
               ivWordArray = random16;
               unencryptedPayloadWordArray = Latin1_parse unencryptedPayload;
               encryptedPayloadWordArray =
                 AES_encrypt lib unencryptedPayloadWordArray CurrentlyUsedSecretKeyWordArray
                   ivWordArray;
               toHMACObj =
                 \<lparr>data_iv = Some (Base64_stringify lib ivWordArray),
                  data_payload = Some (Base64_stringify lib encryptedPayloadWordArray)\<rparr>;
               toHMAC = JSON_stringify_data lib toHMACObj;
               mac = HmacSHA256 lib toHMAC ApiAuthKeyWordArray;
               base64mac = Base64_stringify lib mac
           in Some \<lparr>frame_type = Some (js ''ENCRYPTED''),
                     frame_data = Some toHMACObj,
                     frame_mac = Some base64mac\<rparr>))"

section \<open>index.ts: the RemootioDevice class\<close>

text \<open>
  The fields of the class, lines 95 to 106. \<open>websocketClient\<close> holds the
  \<open>readyState\<close> of the \<open>ws\<close> socket, which the transport changes; timer handles are
  numbers. The two timer periods are left out: no handler modelled here reads them.
  \<open>errorListener\<close> is state of the inherited \<open>EventEmitter\<close>: whether the consumer
  has registered a listener for \<open>error\<close> with \<open>on('error', ...)\<close>. None is registered
  by the constructor.
\<close>

datatype readyState = WS_CONNECTING | WS_OPEN | WS_CLOSING | WS_CLOSED

type_synonym handle = nat

record RemootioDevice =
  apiSecretKey :: jsstring
  apiAuthKey :: jsstring
  deviceIp :: jsstring
  websocketClient :: "readyState option"
  apiSessionKey :: "jsstring option"
  lastActionId :: "int option"
  autoReconnect :: bool
  sendPingMessageIntervalHandle :: "handle option"
  pingReplyTimeoutHandle :: "handle option"
  waitingForAuthenticationQueryActionResponse :: "bool option"
  errorListener :: bool

text \<open>
  What a method does besides changing the fields is a list of effects, in program
  order: a call of \<open>emit\<close> with an event, a frame given to \<open>websocketClient.send\<close>
  (as \<open>JSON.stringify\<close> of it), a line written by \<open>console.warn\<close>, a cleared timer, a
  socket opened, and \<open>Uncaught\<close>: an exception leaves the method. Listeners are taken
  to return. \<open>emit\<close> of an \<open>error\<close> event throws when no listener for \<open>error\<close> is
  registered; \<open>emit\<close> of any other event does not throw.
\<close>

datatype error_arg = Message jsstring | Exception

datatype event =
    Connecting
  | Connected
  | Authenticated
  | Disconnect
  | Error error_arg
  | OutgoingMessage "frame option" "action option"
  | IncomingMessage "frame option" "payload option"

datatype effect =
    Emit event
  | Send "frame option"
  | Warn jsstring
  | ClearTimeout handle
  | ClearInterval handle
  | NewWebSocket jsstring
  | Uncaught

text \<open>The constructor's assignments, lines 127 to 146.\<close>

definition newRemootioDevice :: "jsstring \<Rightarrow> jsstring \<Rightarrow> jsstring \<Rightarrow> RemootioDevice" where
  "newRemootioDevice DeviceIp ApiSecretKey ApiAuthKey =
     \<lparr>apiSecretKey = ApiSecretKey,
      apiAuthKey = ApiAuthKey,
      deviceIp = DeviceIp,
      websocketClient = None,
      apiSessionKey = None,
      lastActionId = None,
      autoReconnect = False,
      sendPingMessageIntervalHandle = None,
      pingReplyTimeoutHandle = None,
      waitingForAuthenticationQueryActionResponse = Some False,
      errorListener = False\<rparr>"

text \<open>The getters, lines 470 to 495.\<close>

definition isConnected :: "RemootioDevice \<Rightarrow> bool" where
  "isConnected this =
     (if websocketClient this \<noteq> None \<and> websocketClient this = Some WS_OPEN then True
      else False)"

definition theLastActionId :: "RemootioDevice \<Rightarrow> int option" where
  "theLastActionId this = lastActionId this"

definition isAuthenticated :: "RemootioDevice \<Rightarrow> bool" where
  "isAuthenticated this =
     (if websocketClient this \<noteq> None \<and> websocketClient this = Some WS_OPEN then
        (if apiSessionKey this \<noteq> None then True else False)
      else False)"

text \<open>\<open>sendFrame\<close>, lines 296 to 303, and \<open>authenticate\<close>, lines 339 to 343.\<close>

definition sendFrame :: "RemootioDevice \<Rightarrow> frame \<Rightarrow> effect list" where
  "sendFrame this frameJson =
     (if websocketClient this \<noteq> None \<and> websocketClient this = Some WS_OPEN then
        [Send (Some frameJson), Emit (OutgoingMessage (Some frameJson) None)]
      else [Warn (js ''The websocket client is not connected'')])"

definition authenticate :: "RemootioDevice \<Rightarrow> effect list" where
  "authenticate this =
     sendFrame this \<lparr>frame_type = Some (js ''AUTH''), frame_data = None, frame_mac = None\<rparr>"

text \<open>
  \<open>sendEncryptedFrame\<close>, lines 315 to 333. \<open>random16\<close> is the initialisation vector
  drawn if a frame is constructed.
\<close>

definition sendEncryptedFrame ::
  "'j library \<Rightarrow> bytes \<Rightarrow> RemootioDevice \<Rightarrow> action \<Rightarrow> effect list" where
  "sendEncryptedFrame lib random16 this unencryptedPayload =
     (if websocketClient this \<noteq> None \<and> websocketClient this = Some WS_OPEN then
        (if apiSessionKey this \<noteq> None then
           (let encryptedFrame =
                  remootioApiConstructEncrypedFrame lib random16
                    (JSON_stringify_action lib unencryptedPayload)
                    (apiSecretKey this) (apiAuthKey this) (apiSessionKey this)
            in [Send encryptedFrame,
                Emit (OutgoingMessage encryptedFrame (Some unencryptedPayload))])
         else [Warn (js ''Authenticate session first to send this message'')])
      else [Warn (js ''The websocket client is not connected'')])"

text \<open>The six action-sending methods, lines 367 to 467.\<close>

definition sendQuery :: "'j library \<Rightarrow> bytes \<Rightarrow> RemootioDevice \<Rightarrow> effect list" where
  "sendQuery lib random16 this =
     (case lastActionId this of
        Some v \<Rightarrow>
          sendEncryptedFrame lib random16 this
            \<lparr>action_type = QUERY, action_id = js_rem (double_plus_one v) 0x7fffffff\<rparr>
      | None \<Rightarrow> [Warn (js ''Unexpected error - lastActionId is undefined'')])"

definition sendTrigger :: "'j library \<Rightarrow> bytes \<Rightarrow> RemootioDevice \<Rightarrow> effect list" where
  "sendTrigger lib random16 this =
     (case lastActionId this of
        Some v \<Rightarrow>
          sendEncryptedFrame lib random16 this
            \<lparr>action_type = TRIGGER, action_id = js_rem (double_plus_one v) 0x7fffffff\<rparr>
      | None \<Rightarrow> [Warn (js ''Unexpected error - lastActionId is undefined'')])"

definition sendTriggerSecondary :: "'j library \<Rightarrow> bytes \<Rightarrow> RemootioDevice \<Rightarrow> effect list" where
  "sendTriggerSecondary lib random16 this =
     (case lastActionId this of
        Some v \<Rightarrow>
          sendEncryptedFrame lib random16 this
            \<lparr>action_type = TRIGGER_SECONDARY, action_id = js_rem (double_plus_one v) 0x7fffffff\<rparr>
      | None \<Rightarrow> [Warn (js ''Unexpected error - lastActionId is undefined'')])"

definition sendOpen :: "'j library \<Rightarrow> bytes \<Rightarrow> RemootioDevice \<Rightarrow> effect list" where
  "sendOpen lib random16 this =
     (case lastActionId this of
        Some v \<Rightarrow>
          sendEncryptedFrame lib random16 this
            \<lparr>action_type = OPEN, action_id = js_rem (double_plus_one v) 0x7fffffff\<rparr>
      | None \<Rightarrow> [Warn (js ''Unexpected error - lastActionId is undefined'')])"

definition sendClose :: "'j library \<Rightarrow> bytes \<Rightarrow> RemootioDevice \<Rightarrow> effect list" where
  "sendClose lib random16 this =
     (case lastActionId this of
        Some v \<Rightarrow>
          sendEncryptedFrame lib random16 this
            \<lparr>action_type = CLOSE, action_id = js_rem (double_plus_one v) 0x7fffffff\<rparr>
      | None \<Rightarrow> [Warn (js ''Unexpected error - lastActionId is undefined'')])"

definition sendRestart :: "'j library \<Rightarrow> bytes \<Rightarrow> RemootioDevice \<Rightarrow> effect list" where
  "sendRestart lib random16 this =
     (case lastActionId this of
        Some v \<Rightarrow>
          sendEncryptedFrame lib random16 this
            \<lparr>action_type = RESTART, action_id = js_rem (double_plus_one v) 0x7fffffff\<rparr>
      | None \<Rightarrow> [Warn (js ''Unexpected error - lastActionId is undefined'')])"

text \<open>
  \<open>connect\<close>, lines 153 to 276: the assignments, the new socket and the
  \<open>connecting\<close> event. The four handlers it registers are the definitions below.
\<close>

definition connect :: "bool \<Rightarrow> RemootioDevice \<Rightarrow> RemootioDevice \<times> effect list" where
  "connect autoReconnectArg this =
     (let this1 = (if autoReconnectArg = True then this\<lparr>autoReconnect := True\<rparr> else this);
          this2 = this1\<lparr>apiSessionKey := None,
                        lastActionId := None,
                        waitingForAuthenticationQueryActionResponse := None\<rparr>;
          this3 = this2\<lparr>websocketClient := Some WS_CONNECTING\<rparr>
      in (this3,
          [NewWebSocket (js ''ws://'' @ deviceIp this3 @ js '':8080/''), Emit Connecting]))"

text \<open>
  The \<open>message\<close> handler, lines 190 to 257, in the order of the code: the reply
  timeout is cleared (196 to 199), a challenge is taken (214 to 222), a response is
  taken (224 to 246). \<open>onMessageTry\<close> is the body of the \<open>try\<close>, with whether it threw:
  \<open>JSON.parse\<close> throws on a text that is no JSON, and \<open>emit('error', ...)\<close> of line
  248 throws without a listener. \<open>onMessage\<close> adds the \<open>catch\<close> of lines 254 to 256,
  whose own \<open>emit('error', e)\<close> throws out of the handler without a listener.
\<close>

definition clearPingReplyTimeout :: "RemootioDevice \<Rightarrow> RemootioDevice \<times> effect list" where
  "clearPingReplyTimeout this =
     (case pingReplyTimeoutHandle this of
        Some h \<Rightarrow> (this\<lparr>pingReplyTimeoutHandle := None\<rparr>, [ClearTimeout h])
      | None \<Rightarrow> (this, []))"

definition onChallenge ::
  "payload library \<Rightarrow> bytes \<Rightarrow> RemootioDevice \<Rightarrow> payload \<Rightarrow> RemootioDevice \<times> effect list" where
  "onChallenge lib random16 this decryptedPayload =
     (case payload_challenge decryptedPayload of
        Some c \<Rightarrow>
          (let this1 = this\<lparr>apiSessionKey := Some (sessionKey c)\<rparr>;
               this2 = this1\<lparr>lastActionId := Some (initialActionId c)\<rparr>;
               this3 = this2\<lparr>waitingForAuthenticationQueryActionResponse := Some True\<rparr>
           in (this3, sendQuery lib random16 this3))
      | None \<Rightarrow> (this, []))"

definition onResponse :: "RemootioDevice \<Rightarrow> payload \<Rightarrow> RemootioDevice \<times> effect list" where
  "onResponse this decryptedPayload =
     (case payload_response decryptedPayload of
        None \<Rightarrow> (this, [])
      | Some r \<Rightarrow>
          (case response_id r of
             None \<Rightarrow> (this, [])
           | Some rid \<Rightarrow>
               (let (this1, fx1) =
                      (case lastActionId this of
                         Some v \<Rightarrow>
                           (if v < rid \<or> (rid = 0 \<and> v = 0x7fffffff)
                            then this\<lparr>lastActionId := Some rid\<rparr>
                            else this,
                            [])
                       | None \<Rightarrow>
                           (this, [Warn (js ''Unexpected error - lastActionId is undefined'')]));
                    (this2, fx2) =
                      (if response_type r = js ''QUERY'' \<and>
                          waitingForAuthenticationQueryActionResponse this1 = Some True
                       then (this1\<lparr>waitingForAuthenticationQueryActionResponse := Some False\<rparr>,
                             [Emit Authenticated])
                       else (this1, []))
                in (this2, fx1 @ fx2))))"

definition isEncrypted :: "frame option \<Rightarrow> bool" where
  "isEncrypted rcvMsgJson =
     (case rcvMsgJson of
        None \<Rightarrow> False
      | Some f \<Rightarrow> frame_type f = Some (js ''ENCRYPTED''))"

definition onMessageTry ::
  "payload library \<Rightarrow> bytes \<Rightarrow> RemootioDevice \<Rightarrow> jsstring
     \<Rightarrow> RemootioDevice \<times> effect list \<times> bool" where
  "onMessageTry lib random16 this msg =
     (case JSON_parse_frame lib msg of
        None \<Rightarrow> (this, [], True)
      | Some rcvMsgJson \<Rightarrow>
          (let (this1, fx1) = clearPingReplyTimeout this
           in if isEncrypted rcvMsgJson then
                (let decryptedPayload =
                       remootioApiDecryptEncrypedFrame lib rcvMsgJson
                         (apiSecretKey this1) (apiAuthKey this1) (apiSessionKey this1);
                     fxw =
                       map Warn
                         (decryptWarnings lib rcvMsgJson
                            (apiSecretKey this1) (apiAuthKey this1) (apiSessionKey this1));
                     fx2 = [Emit (IncomingMessage rcvMsgJson decryptedPayload)]
                 in (case decryptedPayload of
                       Some p \<Rightarrow>
                         (let (this2, fx3) = onChallenge lib random16 this1 p;
                              (this3, fx4) = onResponse this2 p
                          in (this3, fx1 @ fxw @ fx2 @ fx3 @ fx4, False))
                     | None \<Rightarrow>
                         (this1,
                          fx1 @ fxw @ fx2 @
                          [Emit (Error (Message (js ''Authentication or encryption error'')))],
                          \<not> errorListener this1)))
              else (this1, fx1 @ [Emit (IncomingMessage rcvMsgJson None)], False)))"

definition onMessage ::
  "payload library \<Rightarrow> bytes \<Rightarrow> RemootioDevice \<Rightarrow> jsstring \<Rightarrow> RemootioDevice \<times> effect list" where
  "onMessage lib random16 this msg =
     (let (this1, fx1, threw) = onMessageTry lib random16 this msg
      in if threw then
           (this1,
            fx1 @ [Emit (Error Exception)] @
            (if errorListener this1 then [] else [Uncaught]))
         else (this1, fx1))"

text \<open>
  The handler called once for each message, in the order of receipt, each with the
  initialisation vector drawn if it sends. An exception that leaves the handler ends
  that call, not the sequence: the next message is handled if the process goes on, as
  it does under an \<open>uncaughtException\<close> handler. If the process ends there, what has
  happened is the run over the messages up to that one.
\<close>

fun onMessages ::
  "payload library \<Rightarrow> (bytes \<times> jsstring) list \<Rightarrow> RemootioDevice
     \<Rightarrow> RemootioDevice \<times> effect list" where
  "onMessages lib [] this = (this, [])"
| "onMessages lib ((random16, msg) # rest) this =
     (let (this1, fx1) = onMessage lib random16 this msg;
          (this2, fx2) = onMessages lib rest this1
      in (this2, fx1 @ fx2))"

text \<open>
  A message is a response to a QUERY for the handler, in a given state, when it parses
  to an \<open>ENCRYPTED\<close> frame that decrypts under the keys of the state to a payload with
  a \<open>response\<close> whose \<open>id\<close> is defined and whose \<open>type\<close> is \<open>QUERY\<close>: the tests of
  lines 224 and 240. \<open>noQueryResponse\<close> says that no message of a sequence is one, each
  taken in the state in which the handler meets it.
\<close>

definition isQueryResponse :: "payload library \<Rightarrow> RemootioDevice \<Rightarrow> jsstring \<Rightarrow> bool" where
  "isQueryResponse lib this msg =
     (case JSON_parse_frame lib msg of
        None \<Rightarrow> False
      | Some rcvMsgJson \<Rightarrow>
          isEncrypted rcvMsgJson \<and>
          (case remootioApiDecryptEncrypedFrame lib rcvMsgJson
                  (apiSecretKey this) (apiAuthKey this) (apiSessionKey this) of
             None \<Rightarrow> False
           | Some p \<Rightarrow>
               (case payload_response p of
                  None \<Rightarrow> False
                | Some r \<Rightarrow> response_id r \<noteq> None \<and> response_type r = js ''QUERY'')))"

fun noQueryResponse ::
  "payload library \<Rightarrow> (bytes \<times> jsstring) list \<Rightarrow> RemootioDevice \<Rightarrow> bool" where
  "noQueryResponse lib [] this = True"
| "noQueryResponse lib ((random16, msg) # rest) this =
     (\<not> isQueryResponse lib this msg \<and>
      noQueryResponse lib rest (fst (onMessage lib random16 this msg)))"

text \<open>The \<open>close\<close> handler, lines 259 to 271.\<close>

definition onClose :: "RemootioDevice \<Rightarrow> RemootioDevice \<times> effect list" where
  "onClose this =
     (let (this1, fx1) =
            (case sendPingMessageIntervalHandle this of
               Some h \<Rightarrow> (this\<lparr>sendPingMessageIntervalHandle := None\<rparr>, [ClearInterval h])
             | None \<Rightarrow> (this, []));
          (this2, fx2) =
            (if autoReconnect this1 = True then connect (autoReconnect this1) this1
             else (this1, []))
      in (this2, fx1 @ fx2 @ [Emit Disconnect]))"

section \<open>Laws of the library, and a stand-in instance\<close>

text \<open>
  What the round trip needs of the library: Base64 decoding undoes encoding and encodes
  a non-empty array as a non-empty string; AES decryption under a 256-bit key and a
  128-bit initialisation vector undoes encryption; a ciphertext is never empty (PKCS#7
  pads to at least one block); an HMAC-SHA256 value has 32 bytes.
\<close>

definition library_laws :: "'j library \<Rightarrow> bool" where
  "library_laws lib =
     ((\<forall>b. Base64_parse lib (Base64_stringify lib b) = b) \<and>
      (\<forall>b. b \<noteq> [] \<longrightarrow> Base64_stringify lib b \<noteq> []) \<and>
      (\<forall>p k i. length k = 32 \<and> length i = 16 \<longrightarrow>
         AES_decrypt lib (AES_encrypt lib p k i) k i = p) \<and>
      (\<forall>p k i. length i = 16 \<longrightarrow> AES_encrypt lib p k i \<noteq> []) \<and>
      (\<forall>m k. length (HmacSHA256 lib m k) = 32))"

text \<open>
  A stand-in instance of the interface, for concrete runs of the model. It is not AES
  and not SHA-256: the ciphertext is the initialisation vector, the key and the
  plaintext in a row, the tag is the first 32 bytes of key and message, and the
  encodings are byte-wise. The payload parser is a parameter.
\<close>

definition demo_HmacSHA256 :: "jsstring \<Rightarrow> bytes \<Rightarrow> bytes" where
  "demo_HmacSHA256 message key = take 32 (key @ Latin1_parse message @ replicate 32 0)"

definition demo_AES_encrypt :: "bytes \<Rightarrow> bytes \<Rightarrow> bytes \<Rightarrow> bytes" where
  "demo_AES_encrypt plaintext key iv = iv @ key @ plaintext"

definition demo_AES_decrypt :: "bytes \<Rightarrow> bytes \<Rightarrow> bytes \<Rightarrow> bytes" where
  "demo_AES_decrypt ciphertext key iv = drop (length iv + length key) ciphertext"

definition demo_stringify_data :: "data \<Rightarrow> jsstring" where
  "demo_stringify_data d =
     (case data_iv d of None \<Rightarrow> [] | Some i \<Rightarrow> i) @ js '','' @
     (case data_payload d of None \<Rightarrow> [] | Some p \<Rightarrow> p)"

definition demo_stringify_action :: "action \<Rightarrow> jsstring" where
  "demo_stringify_action a =
     (case action_type a of
        QUERY \<Rightarrow> js ''QUERY''
      | TRIGGER \<Rightarrow> js ''TRIGGER''
      | TRIGGER_SECONDARY \<Rightarrow> js ''TRIGGER_SECONDARY''
      | OPEN \<Rightarrow> js ''OPEN''
      | CLOSE \<Rightarrow> js ''CLOSE''
      | RESTART \<Rightarrow> js ''RESTART'')"

definition demo_library ::
  "(jsstring \<Rightarrow> 'j option) \<Rightarrow> (jsstring \<Rightarrow> frame option option) \<Rightarrow> 'j library" where
  "demo_library parsePayload parseFrame =
     \<lparr>Hex_parse = Latin1_parse,
      Base64_parse = Latin1_parse,
      Base64_stringify = Latin1_stringify,
      HmacSHA256 = demo_HmacSHA256,
      AES_encrypt = demo_AES_encrypt,
      AES_decrypt = demo_AES_decrypt,
      JSON_stringify_data = demo_stringify_data,
      JSON_stringify_action = demo_stringify_action,
      JSON_parse = parsePayload,
      JSON_parse_frame = parseFrame\<rparr>"

text \<open>
  Two payload parsers for the runs: one that takes any text between braces as its own
  value, and one that knows a challenge (session key \<open>AAAA\<close>, initial action id 100),
  a response to a QUERY with id 0 and a response to a TRIGGER with id 101.
\<close>

definition demo_parse_text :: "jsstring \<Rightarrow> jsstring option" where
  "demo_parse_text t =
     (if t \<noteq> [] \<and> hd t = 0x7B \<and> last t = 0x7D then Some t else None)"

definition demo_challenge :: payload where
  "demo_challenge =
     \<lparr>payload_challenge = Some \<lparr>sessionKey = js ''AAAA'', initialActionId = 100\<rparr>,
      payload_response = None\<rparr>"

definition demo_response :: payload where
  "demo_response =
     \<lparr>payload_challenge = None,
      payload_response = Some \<lparr>response_type = js ''QUERY'', response_id = Some 0\<rparr>\<rparr>"

definition demo_trigger_response :: payload where
  "demo_trigger_response =
     \<lparr>payload_challenge = None,
      payload_response = Some \<lparr>response_type = js ''TRIGGER'', response_id = Some 101\<rparr>\<rparr>"

definition demo_parse_payload :: "jsstring \<Rightarrow> payload option" where
  "demo_parse_payload t =
     (if t = js ''challenge'' then Some demo_challenge
      else if t = js ''response'' then Some demo_response
      else if t = js ''trigger'' then Some demo_trigger_response
      else None)"

text \<open>
  The frame that a peer holding \<open>key\<close> and \<open>authKey\<close> sends for \<open>plaintext\<close> under the
  stand-in cipher, with initialisation vector \<open>iv\<close>; and a transport that parses
  the listed messages to the listed frames and throws on every other.
\<close>

definition demo_frame :: "bytes \<Rightarrow> jsstring \<Rightarrow> jsstring \<Rightarrow> jsstring \<Rightarrow> frame" where
  "demo_frame iv plaintext key authKey =
     (let d = \<lparr>data_iv = Some (Latin1_stringify iv),
               data_payload =
                 Some (Latin1_stringify
                         (demo_AES_encrypt (Latin1_parse plaintext) (Latin1_parse key) iv))\<rparr>
      in \<lparr>frame_type = Some (js ''ENCRYPTED''),
          frame_data = Some d,
          frame_mac =
            Some (Latin1_stringify
                    (demo_HmacSHA256 (demo_stringify_data d) (Latin1_parse authKey)))\<rparr>)"

definition demo_transport :: "(jsstring \<times> frame) list \<Rightarrow> jsstring \<Rightarrow> frame option option" where
  "demo_transport delivered msg =
     (case map_of delivered msg of None \<Rightarrow> None | Some f \<Rightarrow> Some (Some f))"

definition demo_session_library :: "(jsstring \<times> frame) list \<Rightarrow> payload library" where
  "demo_session_library delivered =
     demo_library demo_parse_payload (demo_transport delivered)"

text \<open>
  A device after \<open>connect(false)\<close> whose socket has opened.
\<close>

definition demo_device :: RemootioDevice where
  "demo_device =
     (fst (connect False (newRemootioDevice (js ''192.168.0.15'') (js ''secret'') (js ''auth''))))
       \<lparr>websocketClient := Some WS_OPEN\<rparr>"

section \<open>Unfolding rules shared by the proofs\<close>

lemmas crypto_defs =
  remootioApiDecryptEncrypedFrame_def decryptGuardFails_def decryptSteps_def
  remootioApiConstructEncrypedFrame_def falsy_def

lemmas demo_defs =
  demo_library_def demo_HmacSHA256_def demo_AES_encrypt_def demo_AES_decrypt_def
  demo_stringify_data_def demo_stringify_action_def demo_parse_text_def
  demo_parse_payload_def demo_challenge_def demo_response_def demo_trigger_response_def
  demo_frame_def
  demo_transport_def demo_session_library_def demo_device_def newRemootioDevice_def
  connect_def
  Latin1_parse_def Latin1_stringify_def js_def

lemmas session_defs =
  onMessage_def onMessageTry_def onChallenge_def onResponse_def clearPingReplyTimeout_def isEncrypted_def
  sendQuery_def sendEncryptedFrame_def isAuthenticated_def isConnected_def
  decryptWarnings_def decryptStepsWarnings_def double_plus_one_def

lemmas send_defs =
  sendQuery_def sendTrigger_def sendTriggerSecondary_def sendOpen_def sendClose_def
  sendRestart_def

section \<open>The cryptographic engine\<close>

text \<open>The stand-in instance satisfies the laws.\<close>

lemma demo_library_laws: "library_laws (demo_library parsePayload parseFrame)"
  by (auto simp add: library_laws_def demo_library_def Latin1_parse_def Latin1_stringify_def
      demo_AES_encrypt_def demo_AES_decrypt_def demo_HmacSHA256_def ucast_up_ucast_id is_up o_def)

text \<open>
  The Latin-1 conversion keeps a string exactly when every code unit is below 256.
\<close>

lemma ucast_low_byte: "(ucast (ucast (c::16 word) :: 8 word) :: 16 word) = take_bit 8 c"
  by (rule bit_word_eqI) (auto simp add: bit_simps)

lemma Latin1_code_unit:
  "(ucast (ucast (c::16 word) :: 8 word) :: 16 word) = c \<longleftrightarrow> c < 256"
proof -
  have "unat (take_bit 8 c) = unat c mod 256"
    by (simp add: unsigned_take_bit_eq take_bit_eq_mod unat_mod_distrib)
  moreover have "(unat c mod 256 = unat c) = (unat c < 256)"
    by (metis mod_less mod_less_divisor zero_less_numeral)
  ultimately show ?thesis
    by (simp only: ucast_low_byte word_unat_eq_iff [of _ c] word_less_nat_alt) simp
qed

lemma Latin1_roundtrip:
  "Latin1_stringify (Latin1_parse t) = t \<longleftrightarrow> (\<forall>c \<in> set t. c < 256)"
  by (induction t) (simp_all add: Latin1_parse_def Latin1_stringify_def Latin1_code_unit)

text \<open>
  Decrypting a constructed frame: for every library that satisfies the laws, the MAC
  verifies and the result is \<open>JSON.parse\<close> of the payload after its passage through
  Latin-1.
\<close>

lemma decrypt_construct:
  assumes laws: "library_laws lib"
    and keylen: "length (Base64_parse lib key) = 32"
    and iv: "length random16 = 16"
  shows "remootioApiDecryptEncrypedFrame lib
           (remootioApiConstructEncrypedFrame lib random16 unencryptedPayload ApiSecretKey
              ApiAuthKey (Some key))
           ApiSecretKey ApiAuthKey (Some key)
         = JSON_parse lib (Latin1_stringify (Latin1_parse unencryptedPayload))"
proof -
  let ?k = "Base64_parse lib key"
  let ?c = "AES_encrypt lib (Latin1_parse unencryptedPayload) ?k random16"
  let ?d = "\<lparr>data_iv = Some (Base64_stringify lib random16),
             data_payload = Some (Base64_stringify lib ?c)\<rparr>"
  let ?m = "Base64_stringify lib (HmacSHA256 lib (JSON_stringify_data lib ?d)
              (Hex_parse lib ApiAuthKey))"
  from laws have b64: "\<And>b. Base64_parse lib (Base64_stringify lib b) = b"
    and ne: "\<And>b. b \<noteq> [] \<Longrightarrow> Base64_stringify lib b \<noteq> []"
    and aes: "\<And>p k i. length k = 32 \<Longrightarrow> length i = 16 \<Longrightarrow>
                AES_decrypt lib (AES_encrypt lib p k i) k i = p"
    and cne: "\<And>p k i. length i = 16 \<Longrightarrow> AES_encrypt lib p k i \<noteq> []"
    and mac: "\<And>m k. length (HmacSHA256 lib m k) = 32"
    by (simp_all add: library_laws_def)
  have iv_ne: "Base64_stringify lib random16 \<noteq> []"
    using iv by (intro ne) auto
  have c_ne: "Base64_stringify lib ?c \<noteq> []"
    using iv by (intro ne cne)
  have "HmacSHA256 lib (JSON_stringify_data lib ?d) (Hex_parse lib ApiAuthKey) \<noteq> []"
    using mac [of "JSON_stringify_data lib ?d" "Hex_parse lib ApiAuthKey"] by auto
  then have m_ne: "?m \<noteq> []"
    by (rule ne)
  have frame: "remootioApiConstructEncrypedFrame lib random16 unencryptedPayload ApiSecretKey
              ApiAuthKey (Some key)
        = Some \<lparr>frame_type = Some (js ''ENCRYPTED''), frame_data = Some ?d,
                 frame_mac = Some ?m\<rparr>"
    by (simp add: remootioApiConstructEncrypedFrame_def Let_def)
  have guard: "\<not> decryptGuardFails (Some \<lparr>frame_type = Some (js ''ENCRYPTED''),
                 frame_data = Some ?d, frame_mac = Some ?m\<rparr>)"
    using iv_ne c_ne m_ne by (simp add: decryptGuardFails_def falsy_def)
  have steps: "decryptSteps lib ?d ?m (Base64_stringify lib ?c) (Base64_stringify lib random16)
                 ApiSecretKey ApiAuthKey (Some key)
               = JSON_parse lib (Latin1_stringify (Latin1_parse unencryptedPayload))"
    using aes [OF keylen iv] by (simp add: decryptSteps_def Let_def b64)
  show ?thesis
    unfolding frame using guard steps
    by (simp add: remootioApiDecryptEncrypedFrame_def)
qed

text \<open>
  C1, as amended. For every payload string whose code units are all below 256 and that
  parses as JSON, every session key that decodes to 256 bits, every auth key and every
  128-bit initialisation vector: decrypting the frame that
  \<open>remootioApiConstructEncrypedFrame\<close> produced, with the same keys, returns the parsed
  payload.
\<close>

theorem C1_roundtrip_latin1:
  assumes "library_laws lib"
    and "length (Base64_parse lib key) = 32"
    and "length random16 = 16"
    and "\<forall>c \<in> set unencryptedPayload. c < 256"
    and "JSON_parse lib unencryptedPayload = Some j"
  shows "remootioApiDecryptEncrypedFrame lib
           (remootioApiConstructEncrypedFrame lib random16 unencryptedPayload ApiSecretKey
              ApiAuthKey (Some key))
           ApiSecretKey ApiAuthKey (Some key)
         = Some j"
proof -
  have "Latin1_stringify (Latin1_parse unencryptedPayload) = unencryptedPayload"
    using assms(4) by (simp add: Latin1_roundtrip)
  with assms(5) show ?thesis
    by (simp add: decrypt_construct [OF assms(1) assms(2) assms(3)])
qed

theorem C1_roundtrip_latin1_witness:
  "library_laws (demo_library demo_parse_text (\<lambda>msg. None)) \<and>
   length (Base64_parse (demo_library demo_parse_text (\<lambda>msg. None))
             (replicate 32 0x41)) = 32 \<and>
   length (replicate 16 (7 :: 8 word)) = 16 \<and>
   list_all (\<lambda>c. c < 256) ([0x7B, 0x22, 0x69, 0x64, 0x22, 0x3A, 0x31, 0x7D] :: jsstring) \<and>
   JSON_parse (demo_library demo_parse_text (\<lambda>msg. None))
     [0x7B, 0x22, 0x69, 0x64, 0x22, 0x3A, 0x31, 0x7D]
     = Some [0x7B, 0x22, 0x69, 0x64, 0x22, 0x3A, 0x31, 0x7D] \<and>
   remootioApiDecryptEncrypedFrame (demo_library demo_parse_text (\<lambda>msg. None))
     (remootioApiConstructEncrypedFrame (demo_library demo_parse_text (\<lambda>msg. None))
        (replicate 16 7) [0x7B, 0x22, 0x69, 0x64, 0x22, 0x3A, 0x31, 0x7D]
        (js ''secret'') (js ''auth'') (Some (replicate 32 0x41)))
     (js ''secret'') (js ''auth'') (Some (replicate 32 0x41))
   = Some [0x7B, 0x22, 0x69, 0x64, 0x22, 0x3A, 0x31, 0x7D]"
proof -
  let ?lib = "demo_library demo_parse_text (\<lambda>msg. None) :: jsstring library"
  have 1: "library_laws ?lib"
    by (rule demo_library_laws)
  have 2: "length (Base64_parse ?lib (replicate 32 0x41)) = 32"
    by (simp add: demo_library_def Latin1_parse_def)
  have 3: "length (replicate 16 (7 :: 8 word)) = 16"
    by simp
  have 4: "\<forall>c \<in> set ([0x7B, 0x22, 0x69, 0x64, 0x22, 0x3A, 0x31, 0x7D] :: jsstring). c < 256"
    by simp
  have 5: "JSON_parse ?lib [0x7B, 0x22, 0x69, 0x64, 0x22, 0x3A, 0x31, 0x7D]
             = Some [0x7B, 0x22, 0x69, 0x64, 0x22, 0x3A, 0x31, 0x7D]"
    by (simp add: demo_library_def demo_parse_text_def)
  show ?thesis
    using 1 2 3 4 5 C1_roundtrip_latin1 [OF 1 2 3 4 5] by (simp add: list_all_iff)
qed

text \<open>
  C1, as stated, fails on a payload with a code unit above 255. The text
  \<open>{"a":"\<euro>"}\<close>, which is \<open>JSON.stringify({a: "\<euro>"})\<close> with the code units
  \<open>7B 22 61 22 3A 22 20AC 22 7D\<close>, comes back as \<open>{"a":"\<not>"}\<close>, with \<open>AC\<close> in
  place of \<open>20AC\<close>: \<open>Latin1.parse\<close> keeps the low byte only.
\<close>

theorem C1_roundtrip_counterexample:
  "library_laws (demo_library demo_parse_text (\<lambda>msg. None)) \<and>
   length (Base64_parse (demo_library demo_parse_text (\<lambda>msg. None))
             (replicate 32 0x41)) = 32 \<and>
   length (replicate 16 (7 :: 8 word)) = 16 \<and>
   JSON_parse (demo_library demo_parse_text (\<lambda>msg. None))
     [0x7B, 0x22, 0x61, 0x22, 0x3A, 0x22, 0x20AC, 0x22, 0x7D]
     = Some [0x7B, 0x22, 0x61, 0x22, 0x3A, 0x22, 0x20AC, 0x22, 0x7D] \<and>
   remootioApiDecryptEncrypedFrame (demo_library demo_parse_text (\<lambda>msg. None))
     (remootioApiConstructEncrypedFrame (demo_library demo_parse_text (\<lambda>msg. None))
        (replicate 16 7) [0x7B, 0x22, 0x61, 0x22, 0x3A, 0x22, 0x20AC, 0x22, 0x7D]
        (js ''secret'') (js ''auth'') (Some (replicate 32 0x41)))
     (js ''secret'') (js ''auth'') (Some (replicate 32 0x41))
   = Some [0x7B, 0x22, 0x61, 0x22, 0x3A, 0x22, 0xAC, 0x22, 0x7D]"
proof -
  let ?lib = "demo_library demo_parse_text (\<lambda>msg. None) :: jsstring library"
  have 1: "library_laws ?lib"
    by (rule demo_library_laws)
  have 2: "length (Base64_parse ?lib (replicate 32 0x41)) = 32"
    by (simp add: demo_library_def Latin1_parse_def)
  have 3: "length (replicate 16 (7 :: 8 word)) = 16"
    by simp
  have 5: "JSON_parse ?lib [0x7B, 0x22, 0x61, 0x22, 0x3A, 0x22, 0x20AC, 0x22, 0x7D]
             = Some [0x7B, 0x22, 0x61, 0x22, 0x3A, 0x22, 0x20AC, 0x22, 0x7D]"
    by (simp add: demo_library_def demo_parse_text_def)
  have 6: "JSON_parse ?lib
             (Latin1_stringify (Latin1_parse [0x7B, 0x22, 0x61, 0x22, 0x3A, 0x22, 0x20AC, 0x22, 0x7D]))
             = Some [0x7B, 0x22, 0x61, 0x22, 0x3A, 0x22, 0xAC, 0x22, 0x7D]"
    by (simp add: demo_library_def demo_parse_text_def Latin1_parse_def Latin1_stringify_def)
  show ?thesis
    using 1 2 3 5 6 by (simp add: decrypt_construct [OF 1 2 3])
qed

text \<open>
  C3. \<open>remootioApiDecryptEncrypedFrame\<close> returns a payload only when the HMAC
  recomputed over \<open>JSON.stringify(frame.data)\<close> equals the frame's \<open>mac\<close> and the
  decrypted text parses as JSON, and the payload is that parse. On a MAC mismatch it
  returns \<open>undefined\<close>; on a text that does not parse it returns \<open>undefined\<close> as well,
  so the two failures give the same result.
\<close>

theorem C3_decrypt_verifies_then_parses:
  "(remootioApiDecryptEncrypedFrame lib frame ApiSecretKey ApiAuthKey ApiSessionKey = Some j \<longrightarrow>
      (\<exists>f d m p i.
         frame = Some f \<and> frame_data f = Some d \<and> frame_mac f = Some m \<and>
         data_payload d = Some p \<and> data_iv d = Some i \<and>
         Base64_stringify lib
           (HmacSHA256 lib (JSON_stringify_data lib d) (Hex_parse lib ApiAuthKey)) = m \<and>
         JSON_parse lib
           (Latin1_stringify
              (AES_decrypt lib (Base64_parse lib p)
                 (case ApiSessionKey of
                    None \<Rightarrow> Hex_parse lib ApiSecretKey
                  | Some k \<Rightarrow> Base64_parse lib k)
                 (Base64_parse lib i))) = Some j)) \<and>
   (frame = Some f' \<and> frame_data f' = Some d' \<and> frame_mac f' = Some m' \<and>
    Base64_stringify lib
      (HmacSHA256 lib (JSON_stringify_data lib d') (Hex_parse lib ApiAuthKey)) \<noteq> m' \<longrightarrow>
      remootioApiDecryptEncrypedFrame lib frame ApiSecretKey ApiAuthKey ApiSessionKey = None) \<and>
   (frame = Some f' \<and> frame_data f' = Some d' \<and>
    data_payload d' = Some p' \<and> data_iv d' = Some i' \<and>
    JSON_parse lib
      (Latin1_stringify
         (AES_decrypt lib (Base64_parse lib p')
            (case ApiSessionKey of
               None \<Rightarrow> Hex_parse lib ApiSecretKey
             | Some k \<Rightarrow> Base64_parse lib k)
            (Base64_parse lib i'))) = None \<longrightarrow>
      remootioApiDecryptEncrypedFrame lib frame ApiSecretKey ApiAuthKey ApiSessionKey = None)"
  by (auto simp add: remootioApiDecryptEncrypedFrame_def decryptSteps_def Let_def
      split: option.splits if_splits)

theorem C3_decrypt_verifies_then_parses_witness:
  "remootioApiDecryptEncrypedFrame (demo_library demo_parse_text (\<lambda>msg. None))
     (Some (demo_frame [1, 2] (js ''{id:1}'') (js ''AAAA'') (js ''auth'')))
     (js ''secret'') (js ''auth'') (Some (js ''AAAA'')) = Some (js ''{id:1}'') \<and>
   remootioApiDecryptEncrypedFrame (demo_library demo_parse_text (\<lambda>msg. None))
     (Some ((demo_frame [1, 2] (js ''{id:1}'') (js ''AAAA'') (js ''auth''))
              \<lparr>frame_mac := Some (js ''corrupted'')\<rparr>))
     (js ''secret'') (js ''auth'') (Some (js ''AAAA'')) = None \<and>
   remootioApiDecryptEncrypedFrame (demo_library demo_parse_text (\<lambda>msg. None))
     (Some (demo_frame [1, 2] (js ''id:1'') (js ''AAAA'') (js ''auth'')))
     (js ''secret'') (js ''auth'') (Some (js ''AAAA'')) = None \<and>
   (\<exists>d m. frame_data (demo_frame [1, 2] (js ''{id:1}'') (js ''AAAA'') (js ''auth'')) = Some d \<and>
      frame_mac (demo_frame [1, 2] (js ''{id:1}'') (js ''AAAA'') (js ''auth'')) = Some m \<and>
      Base64_stringify (demo_library demo_parse_text (\<lambda>msg. None))
        (HmacSHA256 (demo_library demo_parse_text (\<lambda>msg. None))
           (JSON_stringify_data (demo_library demo_parse_text (\<lambda>msg. None)) d)
           (Hex_parse (demo_library demo_parse_text (\<lambda>msg. None)) (js ''auth''))) = m)"
proof -
  let ?lib = "demo_library demo_parse_text (\<lambda>msg. None) :: jsstring library"
  let ?good = "demo_frame [1, 2] (js ''{id:1}'') (js ''AAAA'') (js ''auth'')"
  let ?bad = "?good\<lparr>frame_mac := Some (js ''corrupted'')\<rparr>"
  let ?junk = "demo_frame [1, 2] (js ''id:1'') (js ''AAAA'') (js ''auth'')"
  let ?d = "\<lparr>data_iv = Some [1, 2], data_payload = Some ([1, 2] @ js ''AAAA{id:1}'')\<rparr>"
  let ?e = "\<lparr>data_iv = Some [1, 2], data_payload = Some ([1, 2] @ js ''AAAAid:1'')\<rparr>"
  have good: "remootioApiDecryptEncrypedFrame ?lib (Some ?good) (js ''secret'') (js ''auth'')
                (Some (js ''AAAA'')) = Some (js ''{id:1}'')"
    by (simp add: crypto_defs demo_defs Let_def)
  have bad_fields: "frame_data ?bad = Some ?d \<and> frame_mac ?bad = Some (js ''corrupted'')"
    by (simp add: demo_defs Let_def)
  have bad_mac: "Base64_stringify ?lib
               (HmacSHA256 ?lib (JSON_stringify_data ?lib ?d) (Hex_parse ?lib (js ''auth'')))
             \<noteq> js ''corrupted''"
    by (simp add: demo_defs)
  have junk_fields: "frame_data ?junk = Some ?e \<and>
      data_payload ?e = Some ([1, 2] @ js ''AAAAid:1'') \<and> data_iv ?e = Some [1, 2]"
    by (simp add: demo_defs Let_def)
  have junk_parse: "JSON_parse ?lib
      (Latin1_stringify
         (AES_decrypt ?lib (Base64_parse ?lib ([1, 2] @ js ''AAAAid:1''))
            (case Some (js ''AAAA'') of
               None \<Rightarrow> Hex_parse ?lib (js ''secret'')
             | Some k \<Rightarrow> Base64_parse ?lib k)
            (Base64_parse ?lib [1, 2]))) = None"
    by (simp add: demo_defs)
  from bad_fields bad_mac
    C3_decrypt_verifies_then_parses [of ?lib "Some ?bad" "js ''secret''" "js ''auth''"
        "Some (js ''AAAA'')" _ ?bad ?d "js ''corrupted''"]
  have 2: "remootioApiDecryptEncrypedFrame ?lib (Some ?bad) (js ''secret'') (js ''auth'')
                (Some (js ''AAAA'')) = None"
    by blast
  from junk_fields junk_parse
    C3_decrypt_verifies_then_parses [of ?lib "Some ?junk" "js ''secret''" "js ''auth''"
        "Some (js ''AAAA'')" _ ?junk ?e _ "[1, 2] @ js ''AAAAid:1''" "[1, 2]"]
  have 3: "remootioApiDecryptEncrypedFrame ?lib (Some ?junk) (js ''secret'') (js ''auth'')
                (Some (js ''AAAA'')) = None"
    by blast
  from good
    C3_decrypt_verifies_then_parses [of ?lib "Some ?good" "js ''secret''" "js ''auth''"
        "Some (js ''AAAA'')" "js ''{id:1}''"]
  have 1: "\<exists>d m. frame_data ?good = Some d \<and> frame_mac ?good = Some m \<and>
      Base64_stringify ?lib
        (HmacSHA256 ?lib (JSON_stringify_data ?lib d) (Hex_parse ?lib (js ''auth''))) = m"
    by blast
  from good 1 2 3 show ?thesis
    by simp
qed

text \<open>
  C7. With an undefined session key \<open>remootioApiConstructEncrypedFrame\<close> returns
  \<open>undefined\<close> for every payload, initialisation vector and library, before any library
  call; no exception can arise on that path. It returns a frame exactly when a session
  key is present, and that frame carries the type \<open>ENCRYPTED\<close>, an \<open>iv\<close>, a
  \<open>payload\<close> and a \<open>mac\<close>: it is never malformed.
\<close>

theorem C7_construct_needs_session_key:
  "remootioApiConstructEncrypedFrame lib random16 unencryptedPayload ApiSecretKey ApiAuthKey None
     = None \<and>
   ((\<exists>f. remootioApiConstructEncrypedFrame lib random16 unencryptedPayload ApiSecretKey
            ApiAuthKey ApiSessionKey = Some f \<and>
         frame_type f = Some (js ''ENCRYPTED'') \<and>
         (\<exists>i p. frame_data f = Some \<lparr>data_iv = Some i, data_payload = Some p\<rparr>) \<and>
         frame_mac f \<noteq> None)
      = (ApiSessionKey \<noteq> None)) \<and>
   ((remootioApiConstructEncrypedFrame lib random16 unencryptedPayload ApiSecretKey
            ApiAuthKey ApiSessionKey = None)
      = (ApiSessionKey = None))"
  by (cases ApiSessionKey) (simp_all add: remootioApiConstructEncrypedFrame_def Let_def)

text \<open>
  C9. \<open>remootioApiDecryptEncrypedFrame\<close> on a malformed argument: when the frame is
  null or undefined, or its type is not \<open>ENCRYPTED\<close>, or it lacks \<open>data\<close>, \<open>mac\<close>,
  \<open>data.payload\<close> or \<open>data.iv\<close>, the guard of line 23 holds and the function returns
  \<open>undefined\<close>. The result is the same for every library, so no cryptographic operation
  takes part in it, and the guard reads a field of \<open>frame.data\<close> only after
  \<open>frame.data\<close> was found, so nothing is thrown.
\<close>

theorem C9_decrypt_malformed_frame:
  assumes "frame = None \<or>
           (\<exists>f. frame = Some f \<and>
              (frame_type f \<noteq> Some (js ''ENCRYPTED'') \<or> frame_data f = None \<or>
               frame_mac f = None \<or>
               (\<exists>d. frame_data f = Some d \<and> (data_payload d = None \<or> data_iv d = None))))"
  shows "decryptGuardFails frame \<and>
         remootioApiDecryptEncrypedFrame lib frame ApiSecretKey ApiAuthKey ApiSessionKey = None"
proof -
  from assms have "decryptGuardFails frame"
    by (auto simp add: decryptGuardFails_def falsy_def split: option.splits)
  then show ?thesis
    by (simp add: remootioApiDecryptEncrypedFrame_def)
qed

theorem C9_decrypt_malformed_frame_witness:
  "remootioApiDecryptEncrypedFrame (demo_library demo_parse_text (\<lambda>msg. None)) None
     (js ''secret'') (js ''auth'') None = None \<and>
   remootioApiDecryptEncrypedFrame (demo_library demo_parse_text (\<lambda>msg. None))
     (Some \<lparr>frame_type = Some (js ''PONG''), frame_data = None, frame_mac = None\<rparr>)
     (js ''secret'') (js ''auth'') None = None \<and>
   remootioApiDecryptEncrypedFrame (demo_library demo_parse_text (\<lambda>msg. None))
     (Some \<lparr>frame_type = Some (js ''ENCRYPTED''),
            frame_data = Some \<lparr>data_iv = None, data_payload = Some (js ''abc'')\<rparr>,
            frame_mac = Some (js ''mac'')\<rparr>)
     (js ''secret'') (js ''auth'') (Some (js ''AAAA'')) = None"
  using
    C9_decrypt_malformed_frame [of None "demo_library demo_parse_text (\<lambda>msg. None)"
      "js ''secret''" "js ''auth''" None]
    C9_decrypt_malformed_frame
      [of "Some \<lparr>frame_type = Some (js ''PONG''), frame_data = None, frame_mac = None\<rparr>"
        "demo_library demo_parse_text (\<lambda>msg. None)" "js ''secret''" "js ''auth''" None]
    C9_decrypt_malformed_frame
      [of "Some \<lparr>frame_type = Some (js ''ENCRYPTED''),
            frame_data = Some \<lparr>data_iv = None, data_payload = Some (js ''abc'')\<rparr>,
            frame_mac = Some (js ''mac'')\<rparr>"
        "demo_library demo_parse_text (\<lambda>msg. None)" "js ''secret''" "js ''auth''"
        "Some (js ''AAAA'')"]
  by (simp add: js_def)

section \<open>The session state machine\<close>

text \<open>
  The \<open>message\<close> handler on an \<open>ENCRYPTED\<close> frame, by the outcome of decryption. A
  frame that decrypts gives no warning.
\<close>

lemma clearPingReplyTimeout_fields:
  "apiSecretKey (fst (clearPingReplyTimeout s)) = apiSecretKey s"
  "apiAuthKey (fst (clearPingReplyTimeout s)) = apiAuthKey s"
  "apiSessionKey (fst (clearPingReplyTimeout s)) = apiSessionKey s"
  "lastActionId (fst (clearPingReplyTimeout s)) = lastActionId s"
  "websocketClient (fst (clearPingReplyTimeout s)) = websocketClient s"
  "waitingForAuthenticationQueryActionResponse (fst (clearPingReplyTimeout s))
     = waitingForAuthenticationQueryActionResponse s"
  "errorListener (fst (clearPingReplyTimeout s)) = errorListener s"
  "fst (clearPingReplyTimeout s) = s\<lparr>pingReplyTimeoutHandle := None\<rparr>"
  by (simp_all add: clearPingReplyTimeout_def split: option.splits)

lemma decryptWarnings_Some:
  assumes "remootioApiDecryptEncrypedFrame lib frame ApiSecretKey ApiAuthKey ApiSessionKey = Some j"
  shows "decryptWarnings lib frame ApiSecretKey ApiAuthKey ApiSessionKey = []"
  using assms
  by (auto simp add: remootioApiDecryptEncrypedFrame_def decryptWarnings_def decryptSteps_def
      decryptStepsWarnings_def Let_def split: option.splits if_splits)

lemma onMessage_decrypted:
  assumes "JSON_parse_frame lib msg = Some rcvMsgJson"
    and "isEncrypted rcvMsgJson"
    and "remootioApiDecryptEncrypedFrame lib rcvMsgJson (apiSecretKey s) (apiAuthKey s)
           (apiSessionKey s) = Some p"
  shows "onMessage lib random16 s msg =
           (fst (onResponse (fst (onChallenge lib random16 (fst (clearPingReplyTimeout s)) p)) p),
            snd (clearPingReplyTimeout s) @ [Emit (IncomingMessage rcvMsgJson (Some p))] @
            snd (onChallenge lib random16 (fst (clearPingReplyTimeout s)) p) @
            snd (onResponse (fst (onChallenge lib random16 (fst (clearPingReplyTimeout s)) p)) p))"
  using assms decryptWarnings_Some [OF assms(3)]
  by (simp add: onMessage_def onMessageTry_def Let_def case_prod_beta
      clearPingReplyTimeout_fields(1-3))

lemma onMessage_undecryptable:
  assumes "JSON_parse_frame lib msg = Some rcvMsgJson"
    and "isEncrypted rcvMsgJson"
    and "remootioApiDecryptEncrypedFrame lib rcvMsgJson (apiSecretKey s) (apiAuthKey s)
           (apiSessionKey s) = None"
  shows "onMessage lib random16 s msg =
           (fst (clearPingReplyTimeout s),
            snd (clearPingReplyTimeout s) @
            map Warn (decryptWarnings lib rcvMsgJson (apiSecretKey s) (apiAuthKey s)
                        (apiSessionKey s)) @
            [Emit (IncomingMessage rcvMsgJson None),
             Emit (Error (Message (js ''Authentication or encryption error'')))] @
            (if errorListener s then [] else [Emit (Error Exception), Uncaught]))"
  using assms
  by (simp add: onMessage_def onMessageTry_def Let_def case_prod_beta
      clearPingReplyTimeout_fields(1-3,7))

text \<open>
  Construction succeeds whenever a session key is given. \<open>%\<close> is the mathematical
  modulus on a dividend that is not negative, and \<open>v + 1\<close> is exact below \<open>2^53\<close>.
\<close>

lemma construct_Some:
  "\<exists>f. remootioApiConstructEncrypedFrame lib random16 t sk ak (Some k) = Some f"
  by (simp add: remootioApiConstructEncrypedFrame_def Let_def)

lemma js_rem_nonneg: "0 \<le> a \<Longrightarrow> 0 < b \<Longrightarrow> js_rem a b = a mod b"
  by (cases "a = 0") (simp_all add: js_rem_def)

lemma double_plus_one_exact: "- (2 ^ 53) \<le> v \<Longrightarrow> v < 2 ^ 53 \<Longrightarrow> double_plus_one v = v + 1"
  by (simp add: double_plus_one_def)

lemma action_id_exact:
  "0 \<le> V \<Longrightarrow> V < 2 ^ 53 \<Longrightarrow> js_rem (double_plus_one V) 0x7fffffff = (V + 1) mod 0x7fffffff"
  by (simp add: double_plus_one_def js_rem_nonneg)

text \<open>
  The handler on a challenge payload, and on a response to a QUERY while the client waits
  for one.
\<close>

lemma clearPingReplyTimeout_effects:
  "Emit e \<notin> set (snd (clearPingReplyTimeout s))"
  by (simp add: clearPingReplyTimeout_def split: option.splits)

lemma onMessage_challenge:
  assumes "JSON_parse_frame lib msg = Some rcvMsgJson"
    and "isEncrypted rcvMsgJson"
    and "remootioApiDecryptEncrypedFrame lib rcvMsgJson (apiSecretKey s) (apiAuthKey s)
           (apiSessionKey s) = Some p"
    and "payload_challenge p = Some c"
    and "payload_response p = None"
  shows "onMessage lib random16 s msg =
           (s\<lparr>pingReplyTimeoutHandle := None,
              apiSessionKey := Some (sessionKey c),
              lastActionId := Some (initialActionId c),
              waitingForAuthenticationQueryActionResponse := Some True\<rparr>,
            snd (clearPingReplyTimeout s) @
            [Emit (IncomingMessage rcvMsgJson (Some p))] @
            (if websocketClient s = Some WS_OPEN then
               [Send (remootioApiConstructEncrypedFrame lib random16
                        (JSON_stringify_action lib
                           \<lparr>action_type = QUERY,
                            action_id =
                              js_rem (double_plus_one (initialActionId c)) 0x7fffffff\<rparr>)
                        (apiSecretKey s) (apiAuthKey s) (Some (sessionKey c))),
                Emit (OutgoingMessage
                        (remootioApiConstructEncrypedFrame lib random16
                           (JSON_stringify_action lib
                              \<lparr>action_type = QUERY,
                               action_id =
                                 js_rem (double_plus_one (initialActionId c)) 0x7fffffff\<rparr>)
                           (apiSecretKey s) (apiAuthKey s) (Some (sessionKey c)))
                        (Some \<lparr>action_type = QUERY,
                               action_id =
                                 js_rem (double_plus_one (initialActionId c)) 0x7fffffff\<rparr>))]
             else [Warn (js ''The websocket client is not connected'')]))"
  unfolding onMessage_decrypted [OF assms(1-3)]
  using assms(4-5)
  by (simp add: onChallenge_def onResponse_def sendQuery_def sendEncryptedFrame_def
      clearPingReplyTimeout_fields Let_def)

lemma onMessage_query_response:
  assumes "JSON_parse_frame lib msg = Some rcvMsgJson"
    and "isEncrypted rcvMsgJson"
    and "remootioApiDecryptEncrypedFrame lib rcvMsgJson (apiSecretKey s) (apiAuthKey s)
           (apiSessionKey s) = Some q"
    and "payload_challenge q = None"
    and "payload_response q = Some r"
    and "response_type r = js ''QUERY''"
    and "response_id r = Some rid"
    and "waitingForAuthenticationQueryActionResponse s = Some True"
  shows "Emit Authenticated \<in> set (snd (onMessage lib random16 s msg)) \<and>
         waitingForAuthenticationQueryActionResponse (fst (onMessage lib random16 s msg))
           = Some False"
  unfolding onMessage_decrypted [OF assms(1-3)]
  using assms(4-8)
  by (simp add: onChallenge_def onResponse_def clearPingReplyTimeout_fields Let_def
      split: option.splits)

lemma onMessage_challenge_then_response:
  assumes "JSON_parse_frame lib msg = Some rcvMsgJson"
    and "isEncrypted rcvMsgJson"
    and "remootioApiDecryptEncrypedFrame lib rcvMsgJson (apiSecretKey s) (apiAuthKey s)
           (apiSessionKey s) = Some p"
    and "payload_challenge p = Some c"
    and "payload_response p = None"
    and "JSON_parse_frame lib msg2 = Some rcvMsgJson2"
    and "isEncrypted rcvMsgJson2"
    and "remootioApiDecryptEncrypedFrame lib rcvMsgJson2 (apiSecretKey s) (apiAuthKey s)
           (Some (sessionKey c)) = Some q"
    and "payload_challenge q = None"
    and "payload_response q = Some r"
    and "response_type r = js ''QUERY''"
    and "response_id r = Some rid"
  shows "Emit Authenticated
           \<in> set (snd (onMessage lib random16' (fst (onMessage lib random16 s msg)) msg2))"
proof -
  let ?s' = "s\<lparr>pingReplyTimeoutHandle := None,
              apiSessionKey := Some (sessionKey c),
              lastActionId := Some (initialActionId c),
              waitingForAuthenticationQueryActionResponse := Some True\<rparr>"
  have state: "fst (onMessage lib random16 s msg) = ?s'"
    by (simp add: onMessage_challenge [OF assms(1-5)])
  have "remootioApiDecryptEncrypedFrame lib rcvMsgJson2 (apiSecretKey ?s') (apiAuthKey ?s')
          (apiSessionKey ?s') = Some q"
    using assms(8) by simp
  moreover have "waitingForAuthenticationQueryActionResponse ?s' = Some True"
    by simp
  ultimately show ?thesis
    unfolding state
    using onMessage_query_response [OF assms(6) assms(7) _ assms(9-12), of ?s' random16']
    by blast
qed

text \<open>
  While the client waits, the handler emits \<open>authenticated\<close> on exactly the messages
  that are responses to a QUERY, and keeps waiting on every other message; so it does
  over a run of messages.
\<close>

lemma sendQuery_quiet: "Emit Authenticated \<notin> set (sendQuery lib random16 s)"
  by (simp add: sendQuery_def sendEncryptedFrame_def Let_def split: option.splits)

lemma onChallenge_quiet:
  "Emit Authenticated \<notin> set (snd (onChallenge lib random16 s p))"
  by (simp add: onChallenge_def Let_def sendQuery_quiet split: option.splits)

lemma onChallenge_waiting:
  "waitingForAuthenticationQueryActionResponse s = Some True \<Longrightarrow>
   waitingForAuthenticationQueryActionResponse (fst (onChallenge lib random16 s p)) = Some True"
  by (simp add: onChallenge_def Let_def split: option.splits)

lemma onResponse_authenticated:
  assumes "waitingForAuthenticationQueryActionResponse s = Some True"
  shows "(Emit Authenticated \<in> set (snd (onResponse s p))) =
           (case payload_response p of
              None \<Rightarrow> False
            | Some r \<Rightarrow> response_id r \<noteq> None \<and> response_type r = js ''QUERY'')"
    and "Emit Authenticated \<notin> set (snd (onResponse s p)) \<Longrightarrow>
           waitingForAuthenticationQueryActionResponse (fst (onResponse s p)) = Some True"
  using assms
  by (auto simp add: onResponse_def Let_def split: option.splits if_splits)

lemma onMessage_authenticated:
  assumes "waitingForAuthenticationQueryActionResponse s = Some True"
  shows "(Emit Authenticated \<in> set (snd (onMessage lib random16 s msg))) =
           isQueryResponse lib s msg"
    and "\<not> isQueryResponse lib s msg \<Longrightarrow>
           waitingForAuthenticationQueryActionResponse (fst (onMessage lib random16 s msg))
             = Some True"
proof -
  have w: "waitingForAuthenticationQueryActionResponse
             (fst (onChallenge lib random16 (fst (clearPingReplyTimeout s)) p)) = Some True" for p
    using assms by (simp add: onChallenge_waiting clearPingReplyTimeout_fields(6))
  show "(Emit Authenticated \<in> set (snd (onMessage lib random16 s msg))) =
           isQueryResponse lib s msg"
  proof (cases "JSON_parse_frame lib msg")
    case None
    then show ?thesis
      by (simp add: onMessage_def onMessageTry_def isQueryResponse_def)
  next
    case (Some rcvMsgJson)
    show ?thesis
    proof (cases "isEncrypted rcvMsgJson")
      case False
      with Some show ?thesis
        by (simp add: onMessage_def onMessageTry_def isQueryResponse_def case_prod_beta
            clearPingReplyTimeout_effects)
    next
      case True
      show ?thesis
      proof (cases "remootioApiDecryptEncrypedFrame lib rcvMsgJson (apiSecretKey s)
                      (apiAuthKey s) (apiSessionKey s)")
        case None
        with Some True show ?thesis
          by (auto simp add: onMessage_undecryptable isQueryResponse_def
              clearPingReplyTimeout_effects)
      next
        case (Some p)
        with \<open>JSON_parse_frame lib msg = Some rcvMsgJson\<close> True show ?thesis
          by (simp add: onMessage_decrypted isQueryResponse_def clearPingReplyTimeout_effects
              onChallenge_quiet onResponse_authenticated(1) [OF w])
      qed
    qed
  qed
  show "waitingForAuthenticationQueryActionResponse (fst (onMessage lib random16 s msg))
             = Some True" if "\<not> isQueryResponse lib s msg"
  proof (cases "JSON_parse_frame lib msg")
    case None
    with assms show ?thesis
      by (simp add: onMessage_def onMessageTry_def)
  next
    case (Some rcvMsgJson)
    show ?thesis
    proof (cases "isEncrypted rcvMsgJson")
      case False
      with Some assms show ?thesis
        by (simp add: onMessage_def onMessageTry_def case_prod_beta
            clearPingReplyTimeout_fields(6))
    next
      case True
      show ?thesis
      proof (cases "remootioApiDecryptEncrypedFrame lib rcvMsgJson (apiSecretKey s)
                      (apiAuthKey s) (apiSessionKey s)")
        case None
        with Some True assms show ?thesis
          by (simp add: onMessage_undecryptable clearPingReplyTimeout_fields(6))
      next
        case (Some p)
        with \<open>JSON_parse_frame lib msg = Some rcvMsgJson\<close> True that
        have "Emit Authenticated \<notin> set (snd (onResponse
                (fst (onChallenge lib random16 (fst (clearPingReplyTimeout s)) p)) p))"
          by (simp add: isQueryResponse_def onResponse_authenticated(1) [OF w])
        with Some \<open>JSON_parse_frame lib msg = Some rcvMsgJson\<close> True show ?thesis
          by (simp add: onMessage_decrypted onResponse_authenticated(2) [OF w])
      qed
    qed
  qed
qed

lemma onMessages_quiet:
  "waitingForAuthenticationQueryActionResponse s = Some True \<Longrightarrow>
   noQueryResponse lib ms s \<Longrightarrow>
   Emit Authenticated \<notin> set (snd (onMessages lib ms s)) \<and>
   waitingForAuthenticationQueryActionResponse (fst (onMessages lib ms s)) = Some True"
proof (induction ms arbitrary: s)
  case Nil
  then show ?case by simp
next
  case (Cons m ms)
  obtain random16 msg where m: "m = (random16, msg)"
    by (cases m)
  from Cons.prems m have q: "\<not> isQueryResponse lib s msg"
    and rest: "noQueryResponse lib ms (fst (onMessage lib random16 s msg))"
    by simp_all
  note step = onMessage_authenticated [OF Cons.prems(1), where lib = lib and ?random16.0 = random16 and msg = msg]
  from step(2) [OF q] have w: "waitingForAuthenticationQueryActionResponse
                 (fst (onMessage lib random16 s msg)) = Some True" .
  from Cons.IH [OF w rest] step(1) q show ?case
    by (simp add: m case_prod_beta Let_def)
qed

text \<open>
  A response with a greater id moves \<open>lastActionId\<close> and leaves keys and socket alone;
  the six sending methods by cases.
\<close>

lemma onResponse_fields:
  "apiSecretKey (fst (onResponse s p)) = apiSecretKey s"
  "apiAuthKey (fst (onResponse s p)) = apiAuthKey s"
  "apiSessionKey (fst (onResponse s p)) = apiSessionKey s"
  "websocketClient (fst (onResponse s p)) = websocketClient s"
  by (simp_all add: onResponse_def Let_def case_prod_beta split: option.splits)

lemma onMessage_response:
  assumes "JSON_parse_frame lib msg = Some rcvMsgJson"
    and "isEncrypted rcvMsgJson"
    and "remootioApiDecryptEncrypedFrame lib rcvMsgJson (apiSecretKey s) (apiAuthKey s)
           (apiSessionKey s) = Some q"
    and "payload_challenge q = None"
    and "payload_response q = Some r"
    and "response_id r = Some rid"
    and "lastActionId s = Some V"
    and "V < rid"
  shows "lastActionId (fst (onMessage lib random16 s msg)) = Some rid"
    and "apiSecretKey (fst (onMessage lib random16 s msg)) = apiSecretKey s"
    and "apiAuthKey (fst (onMessage lib random16 s msg)) = apiAuthKey s"
    and "apiSessionKey (fst (onMessage lib random16 s msg)) = apiSessionKey s"
    and "websocketClient (fst (onMessage lib random16 s msg)) = websocketClient s"
  unfolding onMessage_decrypted [OF assms(1-3)]
  using assms(4-8)
  by (simp_all add: onChallenge_def onResponse_fields clearPingReplyTimeout_fields)
    (simp add: onResponse_def clearPingReplyTimeout_fields(4) Let_def)

lemma send_each:
  "\<forall>(send, ty) \<in> set [(sendQuery, QUERY), (sendTrigger, TRIGGER),
                        (sendTriggerSecondary, TRIGGER_SECONDARY), (sendOpen, OPEN),
                        (sendClose, CLOSE), (sendRestart, RESTART)].
     (lastActionId s = None \<longrightarrow>
        send lib random16 s = [Warn (js ''Unexpected error - lastActionId is undefined'')]) \<and>
     (\<forall>V k. lastActionId s = Some V \<and> websocketClient s = Some WS_OPEN \<and>
            apiSessionKey s = Some k \<longrightarrow>
        (\<exists>f. remootioApiConstructEncrypedFrame lib random16
                (JSON_stringify_action lib
                   \<lparr>action_type = ty,
                    action_id = js_rem (double_plus_one V) 0x7fffffff\<rparr>)
                (apiSecretKey s) (apiAuthKey s) (Some k) = Some f \<and>
             send lib random16 s =
               [Send (Some f),
                Emit (OutgoingMessage (Some f)
                        (Some \<lparr>action_type = ty,
                               action_id = js_rem (double_plus_one V) 0x7fffffff\<rparr>))]))"
proof -
  have sent: "\<exists>f. remootioApiConstructEncrypedFrame lib random16
                (JSON_stringify_action lib a) (apiSecretKey s) (apiAuthKey s) (Some k) = Some f \<and>
             sendEncryptedFrame lib random16 s a =
               [Send (Some f), Emit (OutgoingMessage (Some f) (Some a))]"
    if "websocketClient s = Some WS_OPEN" and "apiSessionKey s = Some k" for a k
  proof -
    obtain f where "remootioApiConstructEncrypedFrame lib random16
                (JSON_stringify_action lib a) (apiSecretKey s) (apiAuthKey s) (Some k) = Some f"
      using construct_Some by blast
    with that show ?thesis
      by (simp add: sendEncryptedFrame_def Let_def)
  qed
  show ?thesis
    by (auto simp add: send_defs dest: sent)
qed

text \<open>
  C2. What the handler does with a response id \<open>r\<close> when \<open>lastActionId\<close> is \<open>V\<close>:
  it stores \<open>r\<close> exactly when \<open>V < r\<close>, or \<open>r = 0\<close> and \<open>V = 0x7FFFFFFF\<close>. The
  threshold of the code is \<open>0x7FFFFFFF\<close>, not \<open>0x7FFFFFFE\<close>: at \<open>V = 0x7FFFFFFE\<close>
  the client sends id 0 (ids are taken modulo \<open>0x7FFFFFFF\<close>), and the response with
  id 0 leaves \<open>lastActionId\<close> at \<open>0x7FFFFFFE\<close>.
\<close>

theorem C2_lastActionId_update:
  assumes "JSON_parse_frame lib msg = Some rcvMsgJson"
    and "isEncrypted rcvMsgJson"
    and "remootioApiDecryptEncrypedFrame lib rcvMsgJson (apiSecretKey s) (apiAuthKey s)
           (apiSessionKey s) = Some p"
    and "payload_challenge p = None"
    and "payload_response p = Some r"
    and "response_id r = Some rid"
    and "lastActionId s = Some V"
  shows "lastActionId (fst (onMessage lib random16 s msg)) =
           (if V < rid \<or> (rid = 0 \<and> V = 0x7fffffff) then Some rid else Some V)"
  unfolding onMessage_decrypted [OF assms(1-3)]
  using assms(4-7)
  by (simp add: onChallenge_def onResponse_def clearPingReplyTimeout_fields(4) Let_def)

theorem C2_lastActionId_update_witness:
  "lastActionId
     (fst (onMessage
        (demo_session_library
           [(js ''m'', demo_frame [1, 2] (js ''response'') (js ''AAAA'') (js ''auth''))])
        [3, 4]
        (demo_device\<lparr>apiSessionKey := Some (js ''AAAA''), lastActionId := Some 0x7ffffffe\<rparr>)
        (js ''m'')))
   = Some 0x7ffffffe \<and>
   sendQuery
     (demo_session_library
        [(js ''m'', demo_frame [1, 2] (js ''response'') (js ''AAAA'') (js ''auth''))])
     [3, 4]
     (demo_device\<lparr>apiSessionKey := Some (js ''AAAA''), lastActionId := Some 0x7ffffffe\<rparr>)
   = [Send (Some (demo_frame [3, 4] (js ''QUERY'') (js ''AAAA'') (js ''auth''))),
      Emit (OutgoingMessage (Some (demo_frame [3, 4] (js ''QUERY'') (js ''AAAA'') (js ''auth'')))
              (Some \<lparr>action_type = QUERY, action_id = 0\<rparr>))]"
proof -
  let ?f = "demo_frame [1, 2] (js ''response'') (js ''AAAA'') (js ''auth'')"
  let ?lib = "demo_session_library [(js ''m'', ?f)]"
  let ?s = "demo_device\<lparr>apiSessionKey := Some (js ''AAAA''), lastActionId := Some 0x7ffffffe\<rparr>"
  have 1: "JSON_parse_frame ?lib (js ''m'') = Some (Some ?f)"
    by (simp add: demo_session_library_def demo_library_def demo_transport_def)
  have 2: "isEncrypted (Some ?f)"
    by (simp add: isEncrypted_def demo_frame_def Let_def)
  have 3: "remootioApiDecryptEncrypedFrame ?lib (Some ?f) (apiSecretKey ?s) (apiAuthKey ?s)
             (apiSessionKey ?s) = Some demo_response"
    by (simp add: crypto_defs demo_defs Let_def)
  have 4: "payload_challenge demo_response = None"
    and 5: "payload_response demo_response
              = Some \<lparr>response_type = js ''QUERY'', response_id = Some 0\<rparr>"
    and 6: "response_id \<lparr>response_type = js ''QUERY'', response_id = Some 0\<rparr> = Some 0"
    and 7: "lastActionId ?s = Some 0x7ffffffe"
    by (simp_all add: demo_response_def)
  have 8: "sendQuery ?lib [3, 4] ?s
    = [Send (Some (demo_frame [3, 4] (js ''QUERY'') (js ''AAAA'') (js ''auth''))),
       Emit (OutgoingMessage (Some (demo_frame [3, 4] (js ''QUERY'') (js ''AAAA'') (js ''auth'')))
              (Some \<lparr>action_type = QUERY, action_id = 0\<rparr>))]"
    by (simp add: session_defs crypto_defs demo_defs js_rem_def Let_def)
  show ?thesis
    using C2_lastActionId_update [OF 1 2 3 4 5 6 7, of "[3, 4]"] 8 by simp
qed

text \<open>
  C4, as amended. A connected session whose socket is open processes a challenge with
  a session key and \<open>initialActionId = 100\<close>: afterwards \<open>lastActionId\<close> is 100, the
  session key is stored, a QUERY action with id 101 has been sent encrypted under the new
  key, and no \<open>authenticated\<close> event has been emitted. The event stays unemitted and
  the client keeps waiting over every run of messages none of which is a response to a
  QUERY; the event is emitted by the first message that is one, directly after the
  challenge or after such a run. The \<open>isAuthenticated\<close> property is already true after
  the challenge: it is derived from the open socket and the stored session key.
\<close>

theorem C4_challenge_then_query:
  assumes "JSON_parse_frame lib msg = Some rcvMsgJson"
    and "isEncrypted rcvMsgJson"
    and "remootioApiDecryptEncrypedFrame lib rcvMsgJson (apiSecretKey s) (apiAuthKey s)
           (apiSessionKey s) = Some p"
    and "payload_challenge p = Some \<lparr>sessionKey = k, initialActionId = 100\<rparr>"
    and "payload_response p = None"
    and "websocketClient s = Some WS_OPEN"
  shows "lastActionId (fst (onMessage lib random16 s msg)) = Some 100 \<and>
         apiSessionKey (fst (onMessage lib random16 s msg)) = Some k \<and>
         waitingForAuthenticationQueryActionResponse (fst (onMessage lib random16 s msg))
           = Some True \<and>
         (\<exists>f. remootioApiConstructEncrypedFrame lib random16
                 (JSON_stringify_action lib \<lparr>action_type = QUERY, action_id = 101\<rparr>)
                 (apiSecretKey s) (apiAuthKey s) (Some k) = Some f \<and>
              snd (onMessage lib random16 s msg) =
                snd (clearPingReplyTimeout s) @
                [Emit (IncomingMessage rcvMsgJson (Some p)),
                 Send (Some f),
                 Emit (OutgoingMessage (Some f)
                         (Some \<lparr>action_type = QUERY, action_id = 101\<rparr>))]) \<and>
         Emit Authenticated \<notin> set (snd (onMessage lib random16 s msg)) \<and>
         isAuthenticated (fst (onMessage lib random16 s msg)) \<and>
         (JSON_parse_frame lib msg2 = Some rcvMsgJson2 \<and>
          isEncrypted rcvMsgJson2 \<and>
          remootioApiDecryptEncrypedFrame lib rcvMsgJson2 (apiSecretKey s) (apiAuthKey s)
            (Some k) = Some q \<and>
          payload_challenge q = None \<and>
          payload_response q = Some r \<and>
          response_type r = js ''QUERY'' \<and>
          response_id r = Some rid \<longrightarrow>
            Emit Authenticated
              \<in> set (snd (onMessage lib random16' (fst (onMessage lib random16 s msg)) msg2))) \<and>
         (noQueryResponse lib ms (fst (onMessage lib random16 s msg)) \<longrightarrow>
            Emit Authenticated
              \<notin> set (snd (onMessages lib ms (fst (onMessage lib random16 s msg)))) \<and>
            waitingForAuthenticationQueryActionResponse
              (fst (onMessages lib ms (fst (onMessage lib random16 s msg)))) = Some True \<and>
            (isQueryResponse lib
               (fst (onMessages lib ms (fst (onMessage lib random16 s msg)))) msg3 \<longrightarrow>
               Emit Authenticated
                 \<in> set (snd (onMessage lib random16''
                             (fst (onMessages lib ms (fst (onMessage lib random16 s msg))))
                             msg3))))"
proof -
  let ?c = "\<lparr>sessionKey = k, initialActionId = 100\<rparr>"
  let ?s' = "s\<lparr>pingReplyTimeoutHandle := None,
              apiSessionKey := Some (sessionKey ?c),
              lastActionId := Some (initialActionId ?c),
              waitingForAuthenticationQueryActionResponse := Some True\<rparr>"
  note step = onMessage_challenge [OF assms(1-5), of random16]
  have id: "js_rem (double_plus_one 100) 0x7fffffff = 101"
    by (simp add: js_rem_def double_plus_one_def)
  obtain f where f: "remootioApiConstructEncrypedFrame lib random16
                 (JSON_stringify_action lib \<lparr>action_type = QUERY, action_id = 101\<rparr>)
                 (apiSecretKey s) (apiAuthKey s) (Some k) = Some f"
    using construct_Some by blast
  have state: "fst (onMessage lib random16 s msg) = ?s'"
    by (simp add: step)
  have effects: "snd (onMessage lib random16 s msg) =
                snd (clearPingReplyTimeout s) @
                [Emit (IncomingMessage rcvMsgJson (Some p)),
                 Send (Some f),
                 Emit (OutgoingMessage (Some f)
                         (Some \<lparr>action_type = QUERY, action_id = 101\<rparr>))]"
    using assms(6) f by (simp add: step id)
  have quiet: "Emit Authenticated \<notin> set (snd (onMessage lib random16 s msg))"
    by (simp add: effects clearPingReplyTimeout_effects)
  have auth: "isAuthenticated (fst (onMessage lib random16 s msg))"
    using assms(6) by (simp add: state isAuthenticated_def)
  have later: "Emit Authenticated
              \<in> set (snd (onMessage lib random16' (fst (onMessage lib random16 s msg)) msg2))"
    if "JSON_parse_frame lib msg2 = Some rcvMsgJson2"
      and "isEncrypted rcvMsgJson2"
      and "remootioApiDecryptEncrypedFrame lib rcvMsgJson2 (apiSecretKey s) (apiAuthKey s)
            (Some k) = Some q"
      and "payload_challenge q = None"
      and "payload_response q = Some r"
      and "response_type r = js ''QUERY''"
      and "response_id r = Some rid"
    using onMessage_challenge_then_response [OF assms(1-5) that(1) that(2) _ that(4-7)]
      that(3) by simp
  have waiting: "waitingForAuthenticationQueryActionResponse
                   (fst (onMessage lib random16 s msg)) = Some True"
    by (simp add: state)
  have until: "Emit Authenticated
              \<notin> set (snd (onMessages lib ms (fst (onMessage lib random16 s msg)))) \<and>
            waitingForAuthenticationQueryActionResponse
              (fst (onMessages lib ms (fst (onMessage lib random16 s msg)))) = Some True \<and>
            (isQueryResponse lib
               (fst (onMessages lib ms (fst (onMessage lib random16 s msg)))) msg3 \<longrightarrow>
               Emit Authenticated
                 \<in> set (snd (onMessage lib random16''
                             (fst (onMessages lib ms (fst (onMessage lib random16 s msg))))
                             msg3)))"
    if quiet_run: "noQueryResponse lib ms (fst (onMessage lib random16 s msg))"
  proof -
    note run = onMessages_quiet [OF waiting quiet_run]
    from run have w: "waitingForAuthenticationQueryActionResponse
              (fst (onMessages lib ms (fst (onMessage lib random16 s msg)))) = Some True"
      by simp
    from run onMessage_authenticated(1) [OF w] show ?thesis
      by simp
  qed
  from state effects f quiet auth later until show ?thesis
    by simp
qed

theorem C4_challenge_then_query_witness:
  "lastActionId
     (fst (onMessage
        (demo_session_library
           [(js ''m1'', demo_frame [1, 2] (js ''challenge'') (js ''secret'') (js ''auth'')),
            (js ''m2'', demo_frame [5, 6] (js ''response'') (js ''AAAA'') (js ''auth'')),
            (js ''m3'', demo_frame [11, 12] (js ''trigger'') (js ''AAAA'') (js ''auth''))])
        [3, 4] demo_device (js ''m1'')))
   = Some 100 \<and>
   snd (onMessage
        (demo_session_library
           [(js ''m1'', demo_frame [1, 2] (js ''challenge'') (js ''secret'') (js ''auth'')),
            (js ''m2'', demo_frame [5, 6] (js ''response'') (js ''AAAA'') (js ''auth'')),
            (js ''m3'', demo_frame [11, 12] (js ''trigger'') (js ''AAAA'') (js ''auth''))])
        [3, 4] demo_device (js ''m1''))
   = [Emit (IncomingMessage
              (Some (demo_frame [1, 2] (js ''challenge'') (js ''secret'') (js ''auth'')))
              (Some demo_challenge)),
      Send (Some (demo_frame [3, 4] (js ''QUERY'') (js ''AAAA'') (js ''auth''))),
      Emit (OutgoingMessage
              (Some (demo_frame [3, 4] (js ''QUERY'') (js ''AAAA'') (js ''auth'')))
              (Some \<lparr>action_type = QUERY, action_id = 101\<rparr>))] \<and>
   Emit Authenticated
     \<in> set (snd (onMessage
        (demo_session_library
           [(js ''m1'', demo_frame [1, 2] (js ''challenge'') (js ''secret'') (js ''auth'')),
            (js ''m2'', demo_frame [5, 6] (js ''response'') (js ''AAAA'') (js ''auth'')),
            (js ''m3'', demo_frame [11, 12] (js ''trigger'') (js ''AAAA'') (js ''auth''))])
        [7, 8]
        (fst (onMessage
           (demo_session_library
              [(js ''m1'', demo_frame [1, 2] (js ''challenge'') (js ''secret'') (js ''auth'')),
               (js ''m2'', demo_frame [5, 6] (js ''response'') (js ''AAAA'') (js ''auth'')),
               (js ''m3'', demo_frame [11, 12] (js ''trigger'') (js ''AAAA'') (js ''auth''))])
           [3, 4] demo_device (js ''m1'')))
        (js ''m2''))) \<and>
   Emit Authenticated
     \<notin> set (snd (onMessages
        (demo_session_library
           [(js ''m1'', demo_frame [1, 2] (js ''challenge'') (js ''secret'') (js ''auth'')),
            (js ''m2'', demo_frame [5, 6] (js ''response'') (js ''AAAA'') (js ''auth'')),
            (js ''m3'', demo_frame [11, 12] (js ''trigger'') (js ''AAAA'') (js ''auth''))])
        [([9, 10], js ''m3'')]
        (fst (onMessage
           (demo_session_library
              [(js ''m1'', demo_frame [1, 2] (js ''challenge'') (js ''secret'') (js ''auth'')),
               (js ''m2'', demo_frame [5, 6] (js ''response'') (js ''AAAA'') (js ''auth'')),
               (js ''m3'', demo_frame [11, 12] (js ''trigger'') (js ''AAAA'') (js ''auth''))])
           [3, 4] demo_device (js ''m1''))))) \<and>
   Emit Authenticated
     \<in> set (snd (onMessage
        (demo_session_library
           [(js ''m1'', demo_frame [1, 2] (js ''challenge'') (js ''secret'') (js ''auth'')),
            (js ''m2'', demo_frame [5, 6] (js ''response'') (js ''AAAA'') (js ''auth'')),
            (js ''m3'', demo_frame [11, 12] (js ''trigger'') (js ''AAAA'') (js ''auth''))])
        [7, 8]
        (fst (onMessages
           (demo_session_library
              [(js ''m1'', demo_frame [1, 2] (js ''challenge'') (js ''secret'') (js ''auth'')),
               (js ''m2'', demo_frame [5, 6] (js ''response'') (js ''AAAA'') (js ''auth'')),
               (js ''m3'', demo_frame [11, 12] (js ''trigger'') (js ''AAAA'') (js ''auth''))])
           [([9, 10], js ''m3'')]
           (fst (onMessage
              (demo_session_library
                 [(js ''m1'', demo_frame [1, 2] (js ''challenge'') (js ''secret'') (js ''auth'')),
                  (js ''m2'', demo_frame [5, 6] (js ''response'') (js ''AAAA'') (js ''auth'')),
                  (js ''m3'', demo_frame [11, 12] (js ''trigger'') (js ''AAAA'') (js ''auth''))])
              [3, 4] demo_device (js ''m1'')))))
        (js ''m2'')))"
proof -
  let ?f1 = "demo_frame [1, 2] (js ''challenge'') (js ''secret'') (js ''auth'')"
  let ?f2 = "demo_frame [5, 6] (js ''response'') (js ''AAAA'') (js ''auth'')"
  let ?f3 = "demo_frame [11, 12] (js ''trigger'') (js ''AAAA'') (js ''auth'')"
  let ?lib = "demo_session_library [(js ''m1'', ?f1), (js ''m2'', ?f2), (js ''m3'', ?f3)]"
  let ?r = "\<lparr>response_type = js ''QUERY'', response_id = Some 0\<rparr>"
  let ?s1 = "demo_device\<lparr>pingReplyTimeoutHandle := None,
               apiSessionKey := Some (js ''AAAA''),
               lastActionId := Some 100,
               waitingForAuthenticationQueryActionResponse := Some True\<rparr>"
  have 1: "JSON_parse_frame ?lib (js ''m1'') = Some (Some ?f1)"
    by (simp add: demo_session_library_def demo_library_def demo_transport_def js_def)
  have 2: "isEncrypted (Some ?f1)"
    by (simp add: isEncrypted_def demo_frame_def Let_def)
  have 3: "remootioApiDecryptEncrypedFrame ?lib (Some ?f1) (apiSecretKey demo_device)
             (apiAuthKey demo_device) (apiSessionKey demo_device) = Some demo_challenge"
    by (simp add: crypto_defs demo_defs Let_def)
  have 4: "payload_challenge demo_challenge
             = Some \<lparr>sessionKey = js ''AAAA'', initialActionId = 100\<rparr>"
    and 5: "payload_response demo_challenge = None"
    and 6: "websocketClient demo_device = Some WS_OPEN"
    by (simp_all add: demo_challenge_def demo_device_def)
  have 7: "JSON_parse_frame ?lib (js ''m2'') = Some (Some ?f2)"
    by (simp add: demo_session_library_def demo_library_def demo_transport_def js_def)
  have 8: "isEncrypted (Some ?f2)"
    by (simp add: isEncrypted_def demo_frame_def Let_def)
  have 9: "remootioApiDecryptEncrypedFrame ?lib (Some ?f2) (apiSecretKey demo_device)
             (apiAuthKey demo_device) (Some (js ''AAAA'')) = Some demo_response"
    by (simp add: crypto_defs demo_defs Let_def)
  have 10: "payload_challenge demo_response = None"
    and 11: "payload_response demo_response = Some ?r"
    and 12: "response_type ?r = js ''QUERY''"
    and 13: "response_id ?r = Some 0"
    by (simp_all add: demo_response_def)
  have 14: "snd (clearPingReplyTimeout demo_device) = []"
    by (simp add: clearPingReplyTimeout_def demo_device_def connect_def newRemootioDevice_def)
  have 15: "remootioApiConstructEncrypedFrame ?lib [3, 4]
              (JSON_stringify_action ?lib \<lparr>action_type = QUERY, action_id = 101\<rparr>)
              (apiSecretKey demo_device) (apiAuthKey demo_device) (Some (js ''AAAA''))
            = Some (demo_frame [3, 4] (js ''QUERY'') (js ''AAAA'') (js ''auth''))"
    by (simp add: crypto_defs demo_defs Let_def)
  have s1: "fst (onMessage ?lib [3, 4] demo_device (js ''m1'')) = ?s1"
    by (simp add: onMessage_challenge [OF 1 2 3 4 5])
  have 16: "JSON_parse_frame ?lib (js ''m3'') = Some (Some ?f3)"
    by (simp add: demo_session_library_def demo_library_def demo_transport_def js_def)
  have 17: "isEncrypted (Some ?f3)"
    by (simp add: isEncrypted_def demo_frame_def Let_def)
  have 18: "remootioApiDecryptEncrypedFrame ?lib (Some ?f3) (apiSecretKey ?s1)
             (apiAuthKey ?s1) (apiSessionKey ?s1) = Some demo_trigger_response"
    by (simp add: crypto_defs demo_defs Let_def)
  have 19: "\<not> isQueryResponse ?lib ?s1 (js ''m3'')"
    using 16 17 18 by (simp add: isQueryResponse_def demo_trigger_response_def js_def)
  have 20: "noQueryResponse ?lib [([9, 10], js ''m3'')]
              (fst (onMessage ?lib [3, 4] demo_device (js ''m1'')))"
    using 19 by (simp add: s1)
  have m3: "fst (onMessage ?lib [9, 10] ?s1 (js ''m3'')) = ?s1\<lparr>lastActionId := Some 101\<rparr>"
    unfolding onMessage_decrypted [OF 16 17 18]
    by (simp add: onChallenge_def onResponse_def clearPingReplyTimeout_def
        demo_trigger_response_def Let_def js_def)
  have s2: "fst (onMessages ?lib [([9, 10], js ''m3'')] ?s1) = ?s1\<lparr>lastActionId := Some 101\<rparr>"
    by (simp add: m3 case_prod_beta Let_def)
  have 21: "remootioApiDecryptEncrypedFrame ?lib (Some ?f2)
             (apiSecretKey (?s1\<lparr>lastActionId := Some 101\<rparr>))
             (apiAuthKey (?s1\<lparr>lastActionId := Some 101\<rparr>))
             (apiSessionKey (?s1\<lparr>lastActionId := Some 101\<rparr>)) = Some demo_response"
    by (simp add: crypto_defs demo_defs Let_def)
  have 22: "isQueryResponse ?lib
              (fst (onMessages ?lib [([9, 10], js ''m3'')]
                 (fst (onMessage ?lib [3, 4] demo_device (js ''m1'')))))
              (js ''m2'')"
    unfolding s1 s2 using 7 8 21 by (simp add: isQueryResponse_def demo_response_def)
  show ?thesis
    using C4_challenge_then_query [OF 1 2 3 4 5 6, of "[3, 4]" "js ''m2''" "Some ?f2"
        demo_response ?r 0 "[7, 8]" "[([9, 10], js ''m3'')]" "js ''m2''" "[7, 8]"]
      7 8 9 10 11 12 13 14 15 20 22
    by simp
qed

text \<open>
  C4, as stated, fails: on a freshly connected device, after \<open>authenticate()\<close> and the
  challenge, \<open>isAuthenticated\<close> is true although no response has arrived and no
  \<open>authenticated\<close> event was emitted.
\<close>

theorem C4_authenticated_flag_counterexample:
  "\<not> isAuthenticated demo_device \<and>
   isAuthenticated
     (fst (onMessage
        (demo_session_library
           [(js ''m1'', demo_frame [1, 2] (js ''challenge'') (js ''secret'') (js ''auth''))])
        [3, 4] demo_device (js ''m1''))) \<and>
   Emit Authenticated
     \<notin> set (snd (onMessage
        (demo_session_library
           [(js ''m1'', demo_frame [1, 2] (js ''challenge'') (js ''secret'') (js ''auth''))])
        [3, 4] demo_device (js ''m1'')))"
proof -
  let ?f1 = "demo_frame [1, 2] (js ''challenge'') (js ''secret'') (js ''auth'')"
  let ?lib = "demo_session_library [(js ''m1'', ?f1)]"
  have 1: "JSON_parse_frame ?lib (js ''m1'') = Some (Some ?f1)"
    by (simp add: demo_session_library_def demo_library_def demo_transport_def js_def)
  have 2: "isEncrypted (Some ?f1)"
    by (simp add: isEncrypted_def demo_frame_def Let_def)
  have 3: "remootioApiDecryptEncrypedFrame ?lib (Some ?f1) (apiSecretKey demo_device)
             (apiAuthKey demo_device) (apiSessionKey demo_device) = Some demo_challenge"
    by (simp add: crypto_defs demo_defs Let_def)
  have 4: "payload_challenge demo_challenge
             = Some \<lparr>sessionKey = js ''AAAA'', initialActionId = 100\<rparr>"
    and 5: "payload_response demo_challenge = None"
    and 6: "websocketClient demo_device = Some WS_OPEN"
    and 7: "apiSessionKey demo_device = None"
    by (simp_all add: demo_challenge_def demo_device_def connect_def newRemootioDevice_def)
  have 8: "snd (clearPingReplyTimeout demo_device) = []"
    by (simp add: clearPingReplyTimeout_def demo_device_def connect_def newRemootioDevice_def)
  show ?thesis
    using 6 7 8 by (simp add: onMessage_challenge [OF 1 2 3 4 5] isAuthenticated_def)
qed

text \<open>
  C5, as amended. Each of the six action-sending methods, when \<open>lastActionId\<close> is
  undefined, sends nothing and warns; when \<open>lastActionId\<close> is \<open>V\<close>, the socket is open
  and a session key is present, it sends one encrypted frame for the action of its type
  with id \<open>(V + 1) % 0x7FFFFFFF\<close> as JavaScript computes it, which is
  \<open>(V + 1) mod 0x7FFFFFFF\<close> for \<open>0 \<le> V < 2^53\<close>. No sending method assigns a field.
  When \<open>0 \<le> V \<le> 0x7FFFFFFD\<close> and the response that carries the sent id is handled,
  \<open>lastActionId\<close> becomes that id and the next send, of any of the six, carries the id
  after it modulo \<open>0x7FFFFFFF\<close>.
\<close>

theorem C5_action_sending:
  "(\<forall>(send, ty) \<in> set [(sendQuery, QUERY), (sendTrigger, TRIGGER),
                        (sendTriggerSecondary, TRIGGER_SECONDARY), (sendOpen, OPEN),
                        (sendClose, CLOSE), (sendRestart, RESTART)].
     (lastActionId s = None \<longrightarrow>
        send lib random16 s = [Warn (js ''Unexpected error - lastActionId is undefined'')]) \<and>
     (\<forall>V k. lastActionId s = Some V \<and> websocketClient s = Some WS_OPEN \<and>
            apiSessionKey s = Some k \<longrightarrow>
        (\<exists>f. remootioApiConstructEncrypedFrame lib random16
                (JSON_stringify_action lib
                   \<lparr>action_type = ty,
                    action_id = js_rem (double_plus_one V) 0x7fffffff\<rparr>)
                (apiSecretKey s) (apiAuthKey s) (Some k) = Some f \<and>
             send lib random16 s =
               [Send (Some f),
                Emit (OutgoingMessage (Some f)
                        (Some \<lparr>action_type = ty,
                               action_id = js_rem (double_plus_one V) 0x7fffffff\<rparr>))]) \<and>
        (0 \<le> V \<and> V < 2 ^ 53 \<longrightarrow>
           js_rem (double_plus_one V) 0x7fffffff = (V + 1) mod 0x7fffffff))) \<and>
   (\<forall>V k. lastActionId s = Some V \<and> 0 \<le> V \<and> V \<le> 0x7ffffffd \<and>
          websocketClient s = Some WS_OPEN \<and> apiSessionKey s = Some k \<and>
          JSON_parse_frame lib msg = Some rcvMsgJson \<and> isEncrypted rcvMsgJson \<and>
          remootioApiDecryptEncrypedFrame lib rcvMsgJson (apiSecretKey s) (apiAuthKey s)
            (apiSessionKey s) = Some q \<and>
          payload_challenge q = None \<and> payload_response q = Some r \<and>
          response_id r = Some ((V + 1) mod 0x7fffffff) \<longrightarrow>
      lastActionId (fst (onMessage lib random16' s msg)) = Some ((V + 1) mod 0x7fffffff) \<and>
      (\<forall>(send, ty) \<in> set [(sendQuery, QUERY), (sendTrigger, TRIGGER),
                           (sendTriggerSecondary, TRIGGER_SECONDARY), (sendOpen, OPEN),
                           (sendClose, CLOSE), (sendRestart, RESTART)].
         \<exists>f. remootioApiConstructEncrypedFrame lib random16''
                (JSON_stringify_action lib
                   \<lparr>action_type = ty,
                    action_id = ((V + 1) mod 0x7fffffff + 1) mod 0x7fffffff\<rparr>)
                (apiSecretKey s) (apiAuthKey s) (Some k) = Some f \<and>
              send lib random16'' (fst (onMessage lib random16' s msg)) =
                [Send (Some f),
                 Emit (OutgoingMessage (Some f)
                         (Some \<lparr>action_type = ty,
                                action_id =
                                  ((V + 1) mod 0x7fffffff + 1) mod 0x7fffffff\<rparr>))]))"
proof (intro conjI allI impI)
  show "\<forall>(send, ty) \<in> set [(sendQuery, QUERY), (sendTrigger, TRIGGER),
                        (sendTriggerSecondary, TRIGGER_SECONDARY), (sendOpen, OPEN),
                        (sendClose, CLOSE), (sendRestart, RESTART)].
     (lastActionId s = None \<longrightarrow>
        send lib random16 s = [Warn (js ''Unexpected error - lastActionId is undefined'')]) \<and>
     (\<forall>V k. lastActionId s = Some V \<and> websocketClient s = Some WS_OPEN \<and>
            apiSessionKey s = Some k \<longrightarrow>
        (\<exists>f. remootioApiConstructEncrypedFrame lib random16
                (JSON_stringify_action lib
                   \<lparr>action_type = ty,
                    action_id = js_rem (double_plus_one V) 0x7fffffff\<rparr>)
                (apiSecretKey s) (apiAuthKey s) (Some k) = Some f \<and>
             send lib random16 s =
               [Send (Some f),
                Emit (OutgoingMessage (Some f)
                        (Some \<lparr>action_type = ty,
                               action_id = js_rem (double_plus_one V) 0x7fffffff\<rparr>))]) \<and>
        (0 \<le> V \<and> V < 2 ^ 53 \<longrightarrow>
           js_rem (double_plus_one V) 0x7fffffff = (V + 1) mod 0x7fffffff))"
    using send_each [of s lib random16] by (simp add: action_id_exact)
next
  fix V k
  assume h: "lastActionId s = Some V \<and> 0 \<le> V \<and> V \<le> 0x7ffffffd \<and>
          websocketClient s = Some WS_OPEN \<and> apiSessionKey s = Some k \<and>
          JSON_parse_frame lib msg = Some rcvMsgJson \<and> isEncrypted rcvMsgJson \<and>
          remootioApiDecryptEncrypedFrame lib rcvMsgJson (apiSecretKey s) (apiAuthKey s)
            (apiSessionKey s) = Some q \<and>
          payload_challenge q = None \<and> payload_response q = Some r \<and>
          response_id r = Some ((V + 1) mod 0x7fffffff)"
  let ?W = "(V + 1) mod 0x7fffffff"
  let ?t = "fst (onMessage lib random16' s msg)"
  from h have W: "?W = V + 1" and less: "V < ?W"
    by simp_all
  from h have h1: "JSON_parse_frame lib msg = Some rcvMsgJson"
    and h2: "isEncrypted rcvMsgJson"
    and h3: "remootioApiDecryptEncrypedFrame lib rcvMsgJson (apiSecretKey s) (apiAuthKey s)
            (apiSessionKey s) = Some q"
    and h4: "payload_challenge q = None"
    and h5: "payload_response q = Some r"
    and h6: "response_id r = Some ?W"
    and h7: "lastActionId s = Some V"
    and h8: "websocketClient s = Some WS_OPEN"
    and h9: "apiSessionKey s = Some k"
    by blast+
  note step = onMessage_response [OF h1 h2 h3 h4 h5 h6 h7 less, of random16']
  have fields: "lastActionId ?t = Some ?W" "apiSecretKey ?t = apiSecretKey s"
      "apiAuthKey ?t = apiAuthKey s" "apiSessionKey ?t = Some k"
      "websocketClient ?t = Some WS_OPEN"
    using step h8 h9 by simp_all
  show "lastActionId ?t = Some ?W"
    by (rule fields(1))
  from h W have "0 \<le> ?W" "?W < 2 ^ 53"
    by simp_all
  then have id: "js_rem (double_plus_one ?W) 0x7fffffff = (?W + 1) mod 0x7fffffff"
    by (rule action_id_exact)
  show "\<forall>(send, ty) \<in> set [(sendQuery, QUERY), (sendTrigger, TRIGGER),
                           (sendTriggerSecondary, TRIGGER_SECONDARY), (sendOpen, OPEN),
                           (sendClose, CLOSE), (sendRestart, RESTART)].
         \<exists>f. remootioApiConstructEncrypedFrame lib random16''
                (JSON_stringify_action lib
                   \<lparr>action_type = ty, action_id = (?W + 1) mod 0x7fffffff\<rparr>)
                (apiSecretKey s) (apiAuthKey s) (Some k) = Some f \<and>
              send lib random16'' ?t =
                [Send (Some f),
                 Emit (OutgoingMessage (Some f)
                         (Some \<lparr>action_type = ty,
                                action_id = (?W + 1) mod 0x7fffffff\<rparr>))]"
    using send_each [of ?t lib random16'']
    by (simp add: fields id)
qed

theorem C5_action_sending_witness:
  "sendTrigger
     (demo_session_library
        [(js ''m3'', demo_frame [11, 12] (js ''trigger'') (js ''AAAA'') (js ''auth''))])
     [3, 4]
     (demo_device\<lparr>apiSessionKey := Some (js ''AAAA''), lastActionId := Some 100\<rparr>)
   = [Send (Some (demo_frame [3, 4] (js ''TRIGGER'') (js ''AAAA'') (js ''auth''))),
      Emit (OutgoingMessage
              (Some (demo_frame [3, 4] (js ''TRIGGER'') (js ''AAAA'') (js ''auth'')))
              (Some \<lparr>action_type = TRIGGER, action_id = 101\<rparr>))] \<and>
   lastActionId
     (fst (onMessage
        (demo_session_library
           [(js ''m3'', demo_frame [11, 12] (js ''trigger'') (js ''AAAA'') (js ''auth''))])
        [9, 10]
        (demo_device\<lparr>apiSessionKey := Some (js ''AAAA''), lastActionId := Some 100\<rparr>)
        (js ''m3'')))
   = Some 101 \<and>
   sendTrigger
     (demo_session_library
        [(js ''m3'', demo_frame [11, 12] (js ''trigger'') (js ''AAAA'') (js ''auth''))])
     [5, 6]
     (fst (onMessage
        (demo_session_library
           [(js ''m3'', demo_frame [11, 12] (js ''trigger'') (js ''AAAA'') (js ''auth''))])
        [9, 10]
        (demo_device\<lparr>apiSessionKey := Some (js ''AAAA''), lastActionId := Some 100\<rparr>)
        (js ''m3'')))
   = [Send (Some (demo_frame [5, 6] (js ''TRIGGER'') (js ''AAAA'') (js ''auth''))),
      Emit (OutgoingMessage
              (Some (demo_frame [5, 6] (js ''TRIGGER'') (js ''AAAA'') (js ''auth'')))
              (Some \<lparr>action_type = TRIGGER, action_id = 102\<rparr>))] \<and>
   sendOpen
     (demo_session_library
        [(js ''m3'', demo_frame [11, 12] (js ''trigger'') (js ''AAAA'') (js ''auth''))])
     [3, 4] demo_device
   = [Warn (js ''Unexpected error - lastActionId is undefined'')]"
proof -
  let ?f3 = "demo_frame [11, 12] (js ''trigger'') (js ''AAAA'') (js ''auth'')"
  let ?lib = "demo_session_library [(js ''m3'', ?f3)]"
  let ?s = "demo_device\<lparr>apiSessionKey := Some (js ''AAAA''), lastActionId := Some 100\<rparr>"
  let ?r = "\<lparr>response_type = js ''TRIGGER'', response_id = Some 101\<rparr>"
  have 1: "lastActionId ?s = Some 100" "websocketClient ?s = Some WS_OPEN"
    "apiSessionKey ?s = Some (js ''AAAA'')"
    by (simp_all add: demo_device_def)
  have 2: "lastActionId demo_device = None"
    by (simp add: demo_device_def connect_def newRemootioDevice_def)
  have 3: "js_rem (double_plus_one 100) 0x7fffffff = 101"
    by (simp add: js_rem_def double_plus_one_def)
  have 4: "remootioApiConstructEncrypedFrame ?lib [3, 4]
             (JSON_stringify_action ?lib \<lparr>action_type = TRIGGER, action_id = 101\<rparr>)
             (apiSecretKey demo_device) (apiAuthKey demo_device) (Some (js ''AAAA''))
           = Some (demo_frame [3, 4] (js ''TRIGGER'') (js ''AAAA'') (js ''auth''))"
    by (simp add: crypto_defs demo_defs Let_def)
  have 5: "remootioApiConstructEncrypedFrame ?lib [5, 6]
             (JSON_stringify_action ?lib \<lparr>action_type = TRIGGER, action_id = 102\<rparr>)
             (apiSecretKey demo_device) (apiAuthKey demo_device) (Some (js ''AAAA''))
           = Some (demo_frame [5, 6] (js ''TRIGGER'') (js ''AAAA'') (js ''auth''))"
    by (simp add: crypto_defs demo_defs Let_def)
  have 6: "JSON_parse_frame ?lib (js ''m3'') = Some (Some ?f3)"
    by (simp add: demo_session_library_def demo_library_def demo_transport_def js_def)
  have 7: "isEncrypted (Some ?f3)"
    by (simp add: isEncrypted_def demo_frame_def Let_def)
  have 8: "remootioApiDecryptEncrypedFrame ?lib (Some ?f3) (apiSecretKey demo_device)
             (apiAuthKey demo_device) (Some (js ''AAAA'')) = Some demo_trigger_response"
    by (simp add: crypto_defs demo_defs Let_def)
  have 9: "payload_challenge demo_trigger_response = None"
    "payload_response demo_trigger_response = Some ?r"
    "response_id ?r = Some 101"
    by (simp_all add: demo_trigger_response_def)
  show ?thesis
    using C5_action_sending [of ?s ?lib "[3, 4]" "js ''m3''" "Some ?f3" demo_trigger_response
        ?r "[9, 10]" "[5, 6]"]
      C5_action_sending [of demo_device ?lib "[3, 4]"]
    by (simp add: 1 2 3 4 5 6 7 8 9)
qed

text \<open>
  C5, as stated, fails: two sends in a row from the same state carry the same id 101,
  since only a handled response moves \<open>lastActionId\<close>; and with \<open>lastActionId\<close>
  defined but the socket closed nothing is sent.
\<close>

theorem C5_consecutive_sends_counterexample:
  "lastActionId (demo_device\<lparr>apiSessionKey := Some (js ''AAAA''), lastActionId := Some 100\<rparr>)
   = Some 100 \<and>
   sendTrigger (demo_session_library []) [3, 4]
     (demo_device\<lparr>apiSessionKey := Some (js ''AAAA''), lastActionId := Some 100\<rparr>)
   = [Send (Some (demo_frame [3, 4] (js ''TRIGGER'') (js ''AAAA'') (js ''auth''))),
      Emit (OutgoingMessage
              (Some (demo_frame [3, 4] (js ''TRIGGER'') (js ''AAAA'') (js ''auth'')))
              (Some \<lparr>action_type = TRIGGER, action_id = 101\<rparr>))] \<and>
   sendTrigger (demo_session_library []) [5, 6]
     (demo_device\<lparr>apiSessionKey := Some (js ''AAAA''), lastActionId := Some 100\<rparr>)
   = [Send (Some (demo_frame [5, 6] (js ''TRIGGER'') (js ''AAAA'') (js ''auth''))),
      Emit (OutgoingMessage
              (Some (demo_frame [5, 6] (js ''TRIGGER'') (js ''AAAA'') (js ''auth'')))
              (Some \<lparr>action_type = TRIGGER, action_id = 101\<rparr>))] \<and>
   sendTrigger (demo_session_library []) [3, 4]
     (demo_device\<lparr>apiSessionKey := Some (js ''AAAA''), lastActionId := Some 100,
                  websocketClient := Some WS_CLOSED\<rparr>)
   = [Warn (js ''The websocket client is not connected'')]"
  by (simp add: send_defs sendEncryptedFrame_def crypto_defs demo_defs js_rem_def
      double_plus_one_def Let_def)

text \<open>
  C6, as amended. An inbound \<open>ENCRYPTED\<close> frame that fails decryption or verification,
  handled while a listener for \<open>error\<close> is registered: the \<open>incomingmessage\<close> event
  carries an undefined payload, exactly one \<open>error\<close> event is emitted, and
  \<open>apiSessionKey\<close>, \<open>lastActionId\<close>, the socket and \<open>isAuthenticated\<close> are as before;
  the only field written is \<open>pingReplyTimeoutHandle\<close>. Besides the events the handler
  writes the warnings of the decryption; nothing is sent and no exception leaves the
  handler.
\<close>

theorem C6_undecryptable_frame:
  assumes "JSON_parse_frame lib msg = Some rcvMsgJson"
    and "isEncrypted rcvMsgJson"
    and "remootioApiDecryptEncrypedFrame lib rcvMsgJson (apiSecretKey s) (apiAuthKey s)
           (apiSessionKey s) = None"
    and "errorListener s"
  shows "fst (onMessage lib random16 s msg) = s\<lparr>pingReplyTimeoutHandle := None\<rparr> \<and>
         apiSessionKey (fst (onMessage lib random16 s msg)) = apiSessionKey s \<and>
         lastActionId (fst (onMessage lib random16 s msg)) = lastActionId s \<and>
         isAuthenticated (fst (onMessage lib random16 s msg)) = isAuthenticated s \<and>
         websocketClient (fst (onMessage lib random16 s msg)) = websocketClient s \<and>
         snd (onMessage lib random16 s msg) =
           (case pingReplyTimeoutHandle s of Some h \<Rightarrow> [ClearTimeout h] | None \<Rightarrow> []) @
           map Warn (decryptWarnings lib rcvMsgJson (apiSecretKey s) (apiAuthKey s)
                       (apiSessionKey s)) @
           [Emit (IncomingMessage rcvMsgJson None),
            Emit (Error (Message (js ''Authentication or encryption error'')))] \<and>
         filter (\<lambda>e. \<exists>a. e = Emit (Error a)) (snd (onMessage lib random16 s msg)) =
           [Emit (Error (Message (js ''Authentication or encryption error'')))] \<and>
         Uncaught \<notin> set (snd (onMessage lib random16 s msg)) \<and>
         (\<forall>f. Send f \<notin> set (snd (onMessage lib random16 s msg)))"
  unfolding onMessage_undecryptable [OF assms(1-3)]
  using assms(4)
  by (auto simp add: clearPingReplyTimeout_def isAuthenticated_def filter_map comp_def
      split: option.splits)

theorem C6_undecryptable_frame_witness:
  "snd (onMessage
     (demo_session_library
        [(js ''m'', (demo_frame [1, 2] (js ''response'') (js ''AAAA'') (js ''auth''))
                      \<lparr>frame_mac := Some (js ''corrupted'')\<rparr>)])
     [3, 4]
     (demo_device\<lparr>errorListener := True, apiSessionKey := Some (js ''AAAA''),
                  lastActionId := Some 100, pingReplyTimeoutHandle := Some 5\<rparr>)
     (js ''m''))
   = [ClearTimeout 5,
      Warn (js ''Decryption error: calculated MAC '' @
            Latin1_stringify
                (demo_HmacSHA256
                   (demo_stringify_data
                      \<lparr>data_iv = Some [1, 2],
                       data_payload = Some ([1, 2] @ js ''AAAAresponse'')\<rparr>)
                   (Latin1_parse (js ''auth''))) @
            js '' does not match the MAC from the API '' @ js ''corrupted''),
      Emit (IncomingMessage
              (Some ((demo_frame [1, 2] (js ''response'') (js ''AAAA'') (js ''auth''))
                      \<lparr>frame_mac := Some (js ''corrupted'')\<rparr>)) None),
      Emit (Error (Message (js ''Authentication or encryption error'')))] \<and>
   fst (onMessage
     (demo_session_library
        [(js ''m'', (demo_frame [1, 2] (js ''response'') (js ''AAAA'') (js ''auth''))
                      \<lparr>frame_mac := Some (js ''corrupted'')\<rparr>)])
     [3, 4]
     (demo_device\<lparr>errorListener := True, apiSessionKey := Some (js ''AAAA''),
                  lastActionId := Some 100, pingReplyTimeoutHandle := Some 5\<rparr>)
     (js ''m''))
   = demo_device\<lparr>errorListener := True, apiSessionKey := Some (js ''AAAA''),
                  lastActionId := Some 100, pingReplyTimeoutHandle := None\<rparr>"
proof -
  let ?bad = "(demo_frame [1, 2] (js ''response'') (js ''AAAA'') (js ''auth''))
                      \<lparr>frame_mac := Some (js ''corrupted'')\<rparr>"
  let ?lib = "demo_session_library [(js ''m'', ?bad)]"
  let ?s = "(demo_device\<lparr>errorListener := True, apiSessionKey := Some (js ''AAAA''),
                  lastActionId := Some 100, pingReplyTimeoutHandle := Some 5\<rparr>)"
  have 1: "JSON_parse_frame ?lib (js ''m'') = Some (Some ?bad)"
    by (simp add: demo_session_library_def demo_library_def demo_transport_def)
  have 2: "isEncrypted (Some ?bad)"
    by (simp add: isEncrypted_def demo_frame_def Let_def)
  have 3: "remootioApiDecryptEncrypedFrame ?lib (Some ?bad) (apiSecretKey ?s) (apiAuthKey ?s)
             (apiSessionKey ?s) = None"
    by (simp add: crypto_defs demo_defs Let_def)
  have 4: "errorListener ?s"
    by simp
  have 5: "decryptWarnings ?lib (Some ?bad) (apiSecretKey ?s) (apiAuthKey ?s) (apiSessionKey ?s)
           = [js ''Decryption error: calculated MAC '' @
              Latin1_stringify
                (demo_HmacSHA256
                   (demo_stringify_data
                      \<lparr>data_iv = Some [1, 2],
                       data_payload = Some ([1, 2] @ js ''AAAAresponse'')\<rparr>)
                   (Latin1_parse (js ''auth''))) @
              js '' does not match the MAC from the API '' @ js ''corrupted'']"
    by (simp add: decryptWarnings_def decryptStepsWarnings_def crypto_defs demo_defs Let_def)
  show ?thesis
    using C6_undecryptable_frame [OF 1 2 3 4, of "[3, 4]"] 5 by simp
qed

text \<open>
  C6, as stated, fails when no listener for \<open>error\<close> is registered, as after
  construction: \<open>emit('error', ...)\<close> of line 248 throws into the \<open>catch\<close>, whose
  \<open>emit('error', e)\<close> throws again, so \<open>emit\<close> is called twice for \<open>error\<close> and the
  exception leaves the handler. The frame is one with a corrupted MAC.
\<close>

theorem C6_no_listener_counterexample:
  "\<not> errorListener
       (demo_device\<lparr>apiSessionKey := Some (js ''AAAA''),
                  lastActionId := Some 100, pingReplyTimeoutHandle := Some 5\<rparr>) \<and>
   snd (onMessage
     (demo_session_library
        [(js ''m'', (demo_frame [1, 2] (js ''response'') (js ''AAAA'') (js ''auth''))
                      \<lparr>frame_mac := Some (js ''corrupted'')\<rparr>)])
     [3, 4]
     (demo_device\<lparr>apiSessionKey := Some (js ''AAAA''),
                  lastActionId := Some 100, pingReplyTimeoutHandle := Some 5\<rparr>)
     (js ''m''))
   = [ClearTimeout 5,
      Warn (js ''Decryption error: calculated MAC '' @
            Latin1_stringify
                (demo_HmacSHA256
                   (demo_stringify_data
                      \<lparr>data_iv = Some [1, 2],
                       data_payload = Some ([1, 2] @ js ''AAAAresponse'')\<rparr>)
                   (Latin1_parse (js ''auth''))) @
            js '' does not match the MAC from the API '' @ js ''corrupted''),
      Emit (IncomingMessage
              (Some ((demo_frame [1, 2] (js ''response'') (js ''AAAA'') (js ''auth''))
                      \<lparr>frame_mac := Some (js ''corrupted'')\<rparr>)) None),
      Emit (Error (Message (js ''Authentication or encryption error''))),
      Emit (Error Exception),
      Uncaught]"
proof -
  let ?bad = "(demo_frame [1, 2] (js ''response'') (js ''AAAA'') (js ''auth''))
                      \<lparr>frame_mac := Some (js ''corrupted'')\<rparr>"
  let ?lib = "demo_session_library [(js ''m'', ?bad)]"
  let ?s = "(demo_device\<lparr>apiSessionKey := Some (js ''AAAA''),
                  lastActionId := Some 100, pingReplyTimeoutHandle := Some 5\<rparr>)"
  have 1: "JSON_parse_frame ?lib (js ''m'') = Some (Some ?bad)"
    by (simp add: demo_session_library_def demo_library_def demo_transport_def)
  have 2: "isEncrypted (Some ?bad)"
    by (simp add: isEncrypted_def demo_frame_def Let_def)
  have 3: "remootioApiDecryptEncrypedFrame ?lib (Some ?bad) (apiSecretKey ?s) (apiAuthKey ?s)
             (apiSessionKey ?s) = None"
    by (simp add: crypto_defs demo_defs Let_def)
  have 4: "\<not> errorListener ?s"
    by (simp add: demo_device_def connect_def newRemootioDevice_def)
  have 5: "decryptWarnings ?lib (Some ?bad) (apiSecretKey ?s) (apiAuthKey ?s) (apiSessionKey ?s)
           = [js ''Decryption error: calculated MAC '' @
              Latin1_stringify
                (demo_HmacSHA256
                   (demo_stringify_data
                      \<lparr>data_iv = Some [1, 2],
                       data_payload = Some ([1, 2] @ js ''AAAAresponse'')\<rparr>)
                   (Latin1_parse (js ''auth''))) @
              js '' does not match the MAC from the API '' @ js ''corrupted'']"
    by (simp add: decryptWarnings_def decryptStepsWarnings_def crypto_defs demo_defs Let_def)
  show ?thesis
    using 4 5 by (simp add: onMessage_undecryptable [OF 1 2 3] clearPingReplyTimeout_def)
qed

text \<open>
  C8, as amended. When the socket's \<open>close\<close> handler runs, in every state: the
  repeating ping timer is cleared, a \<open>disconnect\<close> event is emitted, and \<open>connect\<close> is
  called again (a new socket, a \<open>connecting\<close> event) exactly when \<open>autoReconnect\<close> is
  set; otherwise only the timer handle changes.
\<close>

theorem C8_close_handler:
  "sendPingMessageIntervalHandle (fst (onClose s)) = None \<and>
   snd (onClose s) =
     (case sendPingMessageIntervalHandle s of Some h \<Rightarrow> [ClearInterval h] | None \<Rightarrow> []) @
     (if autoReconnect s
      then [NewWebSocket (js ''ws://'' @ deviceIp s @ js '':8080/''), Emit Connecting]
      else []) @
     [Emit Disconnect] \<and>
   Emit Disconnect \<in> set (snd (onClose s)) \<and>
   (Emit Connecting \<in> set (snd (onClose s))) = autoReconnect s \<and>
   (\<exists>url. NewWebSocket url \<in> set (snd (onClose s))) = autoReconnect s \<and>
   (if autoReconnect s
    then fst (onClose s) = fst (connect True (s\<lparr>sendPingMessageIntervalHandle := None\<rparr>)) \<and>
         websocketClient (fst (onClose s)) = Some WS_CONNECTING
    else fst (onClose s) = s\<lparr>sendPingMessageIntervalHandle := None\<rparr>)"
  by (cases "sendPingMessageIntervalHandle s"; cases "autoReconnect s")
    (simp_all add: onClose_def connect_def Let_def)

text \<open>
  C8, as stated, fails for a pending reply timeout: the handler clears the interval
  timer only, and \<open>pingReplyTimeoutHandle\<close> is still set after it.
\<close>

theorem C8_reply_timeout_counterexample:
  "pingReplyTimeoutHandle
     (fst (onClose (demo_device\<lparr>sendPingMessageIntervalHandle := Some 1,
                                 pingReplyTimeoutHandle := Some 2\<rparr>)))
   = Some 2 \<and>
   snd (onClose (demo_device\<lparr>sendPingMessageIntervalHandle := Some 1,
                              pingReplyTimeoutHandle := Some 2\<rparr>))
   = [ClearInterval 1, Emit Disconnect]"
  by (simp add: onClose_def demo_device_def connect_def newRemootioDevice_def Let_def)



end
